theory Spec2Isabelle
  imports Main "HOL-Library.AList"
begin

section \<open>The service controller of inspurDTest/cloud-provider\<close>

text \<open>
  A shallow embedding of \<^verbatim>\<open>controllers/service/controller.go\<close> and of the
  endpoint-slice helpers (\<^verbatim>\<open>endpointslice/helpers\<close>). Objects of the cluster API
  are records, Go errors are values of the datatype \<open>error\<close>, and every call the controller
  makes to an external collaborator (the cloud provider, the API server, the event recorder)
  is appended to a trace kept in the controller state. What a collaborator answers is a
  parameter of the model (the record \<open>Cluster\<close>); an answer may depend on the trace so far.
  Logging (\<^verbatim>\<open>klog\<close>) and metrics are left out; of an event the type and the reason
  are kept. Locks are left out: a pass runs alone.
\<close>

subsection \<open>Constants\<close>

text \<open>Durations are \<^verbatim>\<open>time.Duration\<close> values: a number of nanoseconds.\<close>

definition Second :: int where
  "Second = 1000000000"

definition minRetryDelay :: int where
  "minRetryDelay = 5 * Second"

definition maxRetryDelay :: int where
  "maxRetryDelay = 300 * Second"

definition ToBeDeletedTaint :: string where
  "ToBeDeletedTaint = ''ToBeDeletedByClusterAutoscaler''"

definition ServiceAnnotationLoadBalancerID :: string where
  "ServiceAnnotationLoadBalancerID = ''inspur.com/load-balancer-id''"

definition ServiceAnnotationLoadBalancerOldID :: string where
  "ServiceAnnotationLoadBalancerOldID = ''inspur.com/load-balancer-old-id''"

text \<open>Constants of \<^verbatim>\<open>k8s.io/api/core/v1\<close> that the controller compares with.\<close>

definition ServiceTypeLoadBalancer :: string where
  "ServiceTypeLoadBalancer = ''LoadBalancer''"

definition ServiceExternalTrafficPolicyLocal :: string where
  "ServiceExternalTrafficPolicyLocal = ''Local''"

definition LabelNodeExcludeBalancers :: string where
  "LabelNodeExcludeBalancers = ''node.kubernetes.io/exclude-from-external-load-balancers''"

definition NodeReady :: string where
  "NodeReady = ''Ready''"

definition ConditionTrue :: string where
  "ConditionTrue = ''True''"

definition EventTypeNormal :: string where
  "EventTypeNormal = ''Normal''"

definition EventTypeWarning :: string where
  "EventTypeWarning = ''Warning''"

text \<open>
  \<^verbatim>\<open>LoadBalancerCleanupFinalizer\<close> of the endpoint-slice helpers.
\<close>

definition endpointSliceHelper_LoadBalancerCleanupFinalizer :: string where
  "endpointSliceHelper_LoadBalancerCleanupFinalizer =
     ''endpointslice.kubernetes.io/load-balancer-cleanup''"

text \<open>
  Modelled from the spec: \<^verbatim>\<open>LoadBalancerCleanupFinalizer\<close> of the package
  \<^verbatim>\<open>service/helpers\<close>, whose file is not among the sources; the "finalizer marker" of a
  service, with the name the upstream helper gives it.
\<close>

definition servicehelper_LoadBalancerCleanupFinalizer :: string where
  "servicehelper_LoadBalancerCleanupFinalizer = ''service.kubernetes.io/load-balancer-cleanup''"

subsection \<open>Strings\<close>

text \<open>
  \<^verbatim>\<open>strings.ToLower\<close>, \<^verbatim>\<open>strings.EqualFold\<close> and \<^verbatim>\<open>strings.Contains\<close>
  on byte strings; case folding is the ASCII one (the letters A to Z).
\<close>

definition toLowerChar :: "char \<Rightarrow> char" where
  "toLowerChar ch =
     (let n = (of_char ch :: nat) in
      if 65 \<le> n \<and> n \<le> 90
      then (case ch of Char b0 b1 b2 b3 b4 b5 b6 b7 \<Rightarrow> Char b0 b1 b2 b3 b4 True b6 b7)
      else ch)"

definition ToLower :: "string \<Rightarrow> string" where
  "ToLower s = map toLowerChar s"

definition EqualFold :: "string \<Rightarrow> string \<Rightarrow> bool" where
  "EqualFold s t = (ToLower s = ToLower t)"

fun HasPrefix :: "string \<Rightarrow> string \<Rightarrow> bool" where
  "HasPrefix s [] = True"
| "HasPrefix [] (p # ps) = False"
| "HasPrefix (x # xs) (p # ps) = (x = p \<and> HasPrefix xs ps)"

fun Contains :: "string \<Rightarrow> string \<Rightarrow> bool" where
  "Contains [] substr = (substr = [])"
| "Contains (x # xs) substr = (HasPrefix (x # xs) substr \<or> Contains xs substr)"

subsection \<open>Errors\<close>

text \<open>
  A Go \<^verbatim>\<open>error\<close> value. \<open>ErrorString\<close> is \<^verbatim>\<open>errors.New\<close> or
  \<^verbatim>\<open>fmt.Errorf\<close> with \<^verbatim>\<open>%v\<close> (only the text survives); \<open>Wrapped p e\<close> is
  \<^verbatim>\<open>fmt.Errorf(p + "%w", e)\<close>, which keeps \<open>e\<close> for \<^verbatim>\<open>errors.As\<close>;
  \<open>ImplementedElsewhere\<close> is the provider's sentinel; \<open>RetryError msg d\<close> is the
  \<^verbatim>\<open>*api.RetryError\<close> with its retry-after duration; \<open>StatusError reason msg\<close> is an
  API status error; \<open>Panic\<close> is a run-time panic.
\<close>

datatype error =
    ErrorString string
  | Wrapped string error
  | ImplementedElsewhere
  | RetryError string int
  | StatusError string string
  | Panic string

fun Error :: "error \<Rightarrow> string" where
  "Error (ErrorString msg) = msg"
| "Error (Wrapped p e) = p @ Error e"
| "Error ImplementedElsewhere = ''implemented by alternate to cloud provider''"
| "Error (RetryError msg d) = msg"
| "Error (StatusError reason msg) = msg"
| "Error (Panic msg) = msg"

text \<open>\<^verbatim>\<open>apierrors.IsNotFound\<close>: the reason of the status error in the chain.\<close>

fun IsNotFound :: "error \<Rightarrow> bool" where
  "IsNotFound (StatusError reason msg) = (reason = ''NotFound'')"
| "IsNotFound (Wrapped p e) = IsNotFound e"
| "IsNotFound e = False"

text \<open>
  \<^verbatim>\<open>errors.As(err, &re)\<close> for \<^verbatim>\<open>re *api.RetryError\<close>, followed by
  \<^verbatim>\<open>re.RetryAfter()\<close>: the duration of the first retry error in the chain.
\<close>

fun asRetryError :: "error \<Rightarrow> int option" where
  "asRetryError (RetryError msg d) = Some d"
| "asRetryError (Wrapped p e) = asRetryError e"
| "asRetryError e = None"

subsection \<open>Objects of the cluster API\<close>

text \<open>
  \<^verbatim>\<open>v1.LoadBalancerIngress\<close>. \<open>IPMode\<close> is a pointer field, which the helper compares
  with \<^verbatim>\<open>!=\<close>: it is modelled by the reference it holds (\<open>None\<close> is nil).
\<close>

record PortStatus =
  Port :: int
  Protocol :: string

record LoadBalancerIngress =
  IP :: string
  Hostname :: string
  IPMode :: "nat option"
  Ports :: "PortStatus list"

record LoadBalancerStatus =
  Ingress :: "LoadBalancerIngress list"

text \<open>The fields of \<^verbatim>\<open>v1.Service\<close> that the controller reads or writes.\<close>

record Service =
  Namespace :: string
  Name :: string
  UID :: string
  Annotations :: "string \<rightharpoonup> string"
  Finalizers :: "string list"
  DeletionTimestamp :: "nat option"
  SpecType :: string
  LoadBalancerClass :: "string option"
  ExternalTrafficPolicy :: string
  StatusLoadBalancer :: LoadBalancerStatus

record EndpointSlice =
  eps_Namespace :: string
  eps_Name :: string
  eps_Labels :: "string \<rightharpoonup> string"
  eps_Finalizers :: "string list"
  eps_DeletionTimestamp :: "nat option"
  eps_AddressType :: string

text \<open>
  \<^verbatim>\<open>v1.Node\<close>: a taint is kept by its key, a condition by its type and status.
\<close>

record Node =
  node_Name :: string
  node_Labels :: "string \<rightharpoonup> string"
  node_DeletionTimestamp :: "nat option"
  node_ProviderID :: string
  node_Taints :: "string list"
  node_Conditions :: "(string \<times> string) list"

subsection \<open>Calls to the collaborators, and the controller state\<close>

datatype call =
    EnsureLoadBalancer string Service "EndpointSlice list" string
  | EnsureLoadBalancerDeleted string Service string
  | UpdateLoadBalancer string Service "Node list"
  | GetLoadBalancer string Service
  | PatchService Service Service
  | PatchEndpointSlice EndpointSlice EndpointSlice
  | Event string string

fun is_provider_call :: "call \<Rightarrow> bool" where
  "is_provider_call (EnsureLoadBalancer cn s es i) = True"
| "is_provider_call (EnsureLoadBalancerDeleted cn s i) = True"
| "is_provider_call (UpdateLoadBalancer cn s ns) = True"
| "is_provider_call (GetLoadBalancer cn s) = True"
| "is_provider_call c = False"

fun is_UpdateLoadBalancer :: "call \<Rightarrow> bool" where
  "is_UpdateLoadBalancer (UpdateLoadBalancer cn s ns) = True"
| "is_UpdateLoadBalancer c = False"

fun is_PatchEndpointSlice :: "call \<Rightarrow> bool" where
  "is_PatchEndpointSlice (PatchEndpointSlice old new) = True"
| "is_PatchEndpointSlice c = False"

text \<open>
  What the collaborators answer. Each answer is a function of the trace of calls made so
  far and of the arguments of the call. The listers and the feature gate are reads.
\<close>

record Cluster =
  balancer_EnsureLoadBalancer ::
    "call list \<Rightarrow> Service \<Rightarrow> EndpointSlice list \<Rightarrow> string \<Rightarrow> LoadBalancerStatus option \<times> error option"
  balancer_EnsureLoadBalancerDeleted :: "call list \<Rightarrow> Service \<Rightarrow> string \<Rightarrow> error option"
  balancer_UpdateLoadBalancer :: "call list \<Rightarrow> Service \<Rightarrow> Node list \<Rightarrow> error option"
  balancer_GetLoadBalancer :: "call list \<Rightarrow> Service \<Rightarrow> bool \<times> error option"
  kube_PatchService :: "call list \<Rightarrow> Service \<Rightarrow> Service \<Rightarrow> error option"
  kube_PatchEndpointSlice :: "call list \<Rightarrow> EndpointSlice \<Rightarrow> EndpointSlice \<Rightarrow> error option"
  kube_GetConfigMap :: "call list \<Rightarrow> (string \<rightharpoonup> string) \<times> error option"
  serviceLister_Get :: "call list \<Rightarrow> string \<Rightarrow> string \<Rightarrow> error + Service"
  endpointSliceLister_List :: "call list \<Rightarrow> string \<Rightarrow> string \<Rightarrow> error + EndpointSlice list"
  nodeLister_List :: "call list \<Rightarrow> error + Node list"
  StableLoadBalancerNodeSet :: bool

text \<open>
  The work queue of \<^verbatim>\<open>k8s.io/client-go/util/workqueue\<close> with its per-item
  exponential failure rate limiter: the items waiting in order, the dirty and the
  processing sets, the two delays of the limiter and its failure count of every item, and
  the items handed to \<^verbatim>\<open>AddAfter\<close> with a positive delay.
\<close>

record RateLimitingQueue =
  queue :: "string list"
  dirty :: "string set"
  processing :: "string set"
  shuttingDown :: bool
  baseDelay :: int
  maxDelay :: int
  failures :: "string \<Rightarrow> nat"
  waitingForAdd :: "(string \<times> int) list"

text \<open>
  The mutable part of \<^verbatim>\<open>Controller\<close>: \<open>cache\<close> is \<^verbatim>\<open>serviceCache.serviceMap\<close>
  (an entry holds a \<^verbatim>\<open>state\<close> pointer, \<open>None\<close> when nil), \<open>lastSyncedNodes\<close> the
  tracker of the node sets last synced, \<open>calls\<close> the trace. The service queue is kept
  beside it.
\<close>

record Controller =
  clusterName :: string
  cache :: "string \<rightharpoonup> Service option"
  lastSyncedNodes :: "string \<rightharpoonup> Node list"
  calls :: "call list"

definition record_call :: "call \<Rightarrow> Controller \<Rightarrow> Controller" where
  "record_call x c = c\<lparr>calls := calls c @ [x]\<rparr>"

definition eventRecorder_Event :: "string \<Rightarrow> string \<Rightarrow> Controller \<Rightarrow> Controller" where
  "eventRecorder_Event eventtype reason c = record_call (Event eventtype reason) c"

definition EnsureLoadBalancerDeleted_call ::
  "Cluster \<Rightarrow> Service \<Rightarrow> string \<Rightarrow> Controller \<Rightarrow> error option \<times> Controller" where
  "EnsureLoadBalancerDeleted_call cl service lbId c =
     (balancer_EnsureLoadBalancerDeleted cl (calls c) service lbId,
      record_call (EnsureLoadBalancerDeleted (clusterName c) service lbId) c)"

definition EnsureLoadBalancer_call ::
  "Cluster \<Rightarrow> Service \<Rightarrow> EndpointSlice list \<Rightarrow> string \<Rightarrow> Controller
     \<Rightarrow> (LoadBalancerStatus option \<times> error option) \<times> Controller" where
  "EnsureLoadBalancer_call cl service endpointSlices lbID c =
     (balancer_EnsureLoadBalancer cl (calls c) service endpointSlices lbID,
      record_call (EnsureLoadBalancer (clusterName c) service endpointSlices lbID) c)"

definition UpdateLoadBalancer_call ::
  "Cluster \<Rightarrow> Service \<Rightarrow> Node list \<Rightarrow> Controller \<Rightarrow> error option \<times> Controller" where
  "UpdateLoadBalancer_call cl service hosts c =
     (balancer_UpdateLoadBalancer cl (calls c) service hosts,
      record_call (UpdateLoadBalancer (clusterName c) service hosts) c)"

definition GetLoadBalancer_call ::
  "Cluster \<Rightarrow> Service \<Rightarrow> Controller \<Rightarrow> (bool \<times> error option) \<times> Controller" where
  "GetLoadBalancer_call cl service c =
     (balancer_GetLoadBalancer cl (calls c) service,
      record_call (GetLoadBalancer (clusterName c) service) c)"

text \<open>
  \<^verbatim>\<open>servicehelper.PatchService\<close> and \<^verbatim>\<open>endpointSliceHelper.PatchEndpointSlice\<close>:
  one patch request to the API server, built from the object read and its updated copy.
\<close>

definition PatchService_call ::
  "Cluster \<Rightarrow> Service \<Rightarrow> Service \<Rightarrow> Controller \<Rightarrow> error option \<times> Controller" where
  "PatchService_call cl oldSvc newSvc c =
     (kube_PatchService cl (calls c) oldSvc newSvc, record_call (PatchService oldSvc newSvc) c)"

definition PatchEndpointSlice_call ::
  "Cluster \<Rightarrow> EndpointSlice \<Rightarrow> EndpointSlice \<Rightarrow> Controller \<Rightarrow> error option \<times> Controller" where
  "PatchEndpointSlice_call cl oldEps newEps c =
     (kube_PatchEndpointSlice cl (calls c) oldEps newEps,
      record_call (PatchEndpointSlice oldEps newEps) c)"

subsection \<open>Helpers of the service and endpoint-slice packages\<close>

text \<open>
  \<^verbatim>\<open>HasLBFinalizer\<close> of the endpoint-slice helpers.
\<close>

definition endpointSliceHelper_HasLBFinalizer :: "EndpointSlice \<Rightarrow> bool" where
  "endpointSliceHelper_HasLBFinalizer eps =
     (endpointSliceHelper_LoadBalancerCleanupFinalizer \<in> set (eps_Finalizers eps))"

text \<open>
  Modelled from the spec: \<^verbatim>\<open>servicehelper.HasLBFinalizer\<close> and
  \<^verbatim>\<open>servicehelper.HasAnnoation\<close> of the package \<^verbatim>\<open>service/helpers\<close>, whose file is
  not among the sources: whether the service carries the finalizer marker (as the
  endpoint-slice helper does it for an endpoint slice), and whether it carries the annotation.
\<close>

definition servicehelper_HasLBFinalizer :: "Service \<Rightarrow> bool" where
  "servicehelper_HasLBFinalizer service =
     (servicehelper_LoadBalancerCleanupFinalizer \<in> set (Finalizers service))"

definition servicehelper_HasAnnoation :: "Service \<Rightarrow> string \<Rightarrow> bool" where
  "servicehelper_HasAnnoation service annotation = (Annotations service annotation \<noteq> None)"

text \<open>
  \<^verbatim>\<open>ingressEqual\<close>, \<^verbatim>\<open>ingressSliceEqual\<close> and \<^verbatim>\<open>LoadBalancerStatusEqual\<close>, as
  the endpoint-slice helpers have them; \<^verbatim>\<open>patchStatus\<close> calls the copy of the package
  \<^verbatim>\<open>service/helpers\<close>.
\<close>

definition ingressEqual :: "LoadBalancerIngress \<Rightarrow> LoadBalancerIngress \<Rightarrow> bool" where
  "ingressEqual lhs rhs =
     (if IP lhs \<noteq> IP rhs then False
      else if Hostname lhs \<noteq> Hostname rhs then False
      else if IPMode lhs \<noteq> IPMode rhs then False
      else True)"

fun ingressSliceLoop :: "LoadBalancerIngress list \<Rightarrow> LoadBalancerIngress list \<Rightarrow> bool" where
  "ingressSliceLoop (l # ls) (r # rs) = (if \<not> ingressEqual l r then False else ingressSliceLoop ls rs)"
| "ingressSliceLoop ls rs = True"

definition ingressSliceEqual :: "LoadBalancerIngress list \<Rightarrow> LoadBalancerIngress list \<Rightarrow> bool" where
  "ingressSliceEqual lhs rhs =
     (if length lhs \<noteq> length rhs then False else ingressSliceLoop lhs rhs)"

definition LoadBalancerStatusEqual :: "LoadBalancerStatus \<Rightarrow> LoadBalancerStatus \<Rightarrow> bool" where
  "LoadBalancerStatusEqual l r = ingressSliceEqual (Ingress l) (Ingress r)"

subsection \<open>Predicates on services and endpoint slices\<close>

definition wantsLoadBalancer :: "Service \<Rightarrow> bool" where
  "wantsLoadBalancer service =
     (SpecType service = ServiceTypeLoadBalancer \<and> LoadBalancerClass service = None)"

definition needsCleanup :: "Service \<Rightarrow> bool" where
  "needsCleanup service =
     (if \<not> servicehelper_HasLBFinalizer service then False
      else if DeletionTimestamp service \<noteq> None then True
      else if SpecType service \<noteq> ServiceTypeLoadBalancer then True
      else False)"

definition epsNeedsCleanup :: "EndpointSlice \<Rightarrow> bool" where
  "epsNeedsCleanup eps =
     (if \<not> endpointSliceHelper_HasLBFinalizer eps then False
      else if eps_DeletionTimestamp eps \<noteq> None then True
      else False)"

definition getStringFromServiceAnnotation :: "Service \<Rightarrow> string \<Rightarrow> string \<Rightarrow> string" where
  "getStringFromServiceAnnotation service annotationKey defaultSetting =
     (case Annotations service annotationKey of
        Some annotationValue \<Rightarrow> annotationValue
      | None \<Rightarrow> defaultSetting)"

definition removeString :: "string list \<Rightarrow> string \<Rightarrow> string list" where
  "removeString slice s = filter (\<lambda>item. item \<noteq> s) slice"

definition removeAnnotationKey :: "(string \<rightharpoonup> string) \<Rightarrow> string \<Rightarrow> (string \<rightharpoonup> string)" where
  "removeAnnotationKey annotation key =
     (\<lambda>oldAnnotation. if \<not> EqualFold oldAnnotation key then annotation oldAnnotation else None)"

subsection \<open>Finalizers, annotations and status\<close>

definition processLoadBalancerDelete ::
  "Cluster \<Rightarrow> Service \<Rightarrow> string \<Rightarrow> string \<Rightarrow> Controller \<Rightarrow> error option \<times> Controller" where
  "processLoadBalancerDelete cl service key lbId c =
     (case EnsureLoadBalancerDeleted_call cl service lbId c of
        (Some err, c1) \<Rightarrow>
          if Contains (Error err) ''not found'' then (None, c1)
          else (Some err, eventRecorder_Event EventTypeWarning ''DeleteLoadBalancerFailed'' c1)
      | (None, c1) \<Rightarrow> (None, c1))"

definition addFinalizer :: "Cluster \<Rightarrow> Service \<Rightarrow> Controller \<Rightarrow> error option \<times> Controller" where
  "addFinalizer cl service c =
     (if servicehelper_HasLBFinalizer service then (None, c)
      else
        let updated = service\<lparr>Finalizers :=
              Finalizers service @ [servicehelper_LoadBalancerCleanupFinalizer]\<rparr>
        in PatchService_call cl service updated c)"

text \<open>
  \<^verbatim>\<open>addEndpointSliceFinalizer\<close> begins with \<^verbatim>\<open>return nil\<close>: the statements after it,
  which would append the finalizer and patch the endpoint slice, are never reached.
\<close>

definition addEndpointSliceFinalizer ::
  "Cluster \<Rightarrow> EndpointSlice \<Rightarrow> Controller \<Rightarrow> error option \<times> Controller" where
  "addEndpointSliceFinalizer cl endpointslice c = (None, c)"

definition removeFinalizer :: "Cluster \<Rightarrow> Service \<Rightarrow> Controller \<Rightarrow> error option \<times> Controller" where
  "removeFinalizer cl service c =
     (if \<not> servicehelper_HasLBFinalizer service then (None, c)
      else if \<not> needsCleanup service then (None, c)
      else
        let updated = service\<lparr>Finalizers :=
              removeString (Finalizers service) servicehelper_LoadBalancerCleanupFinalizer\<rparr>
        in PatchService_call cl service updated c)"

text \<open>
  \<^verbatim>\<open>removeAnnotationLbId\<close>: its first test, on the finalizer, has an empty body.
\<close>

definition removeAnnotationLbId ::
  "Cluster \<Rightarrow> Service \<Rightarrow> string \<Rightarrow> Controller \<Rightarrow> error option \<times> Controller" where
  "removeAnnotationLbId cl service annotation c =
     (if DeletionTimestamp service \<noteq> None then (None, c)
      else if \<not> servicehelper_HasAnnoation service annotation then (None, c)
      else
        let updated = service\<lparr>Annotations := removeAnnotationKey (Annotations service) annotation\<rparr>
        in PatchService_call cl service updated c)"

text \<open>
  \<^verbatim>\<open>removeEndpointSliceFinalizer\<close> returns at once when the endpoint slice has the
  finalizer (the test is not negated, unlike the one of \<^verbatim>\<open>removeFinalizer\<close>).
\<close>

definition removeEndpointSliceFinalizer ::
  "Cluster \<Rightarrow> EndpointSlice \<Rightarrow> Controller \<Rightarrow> error option \<times> Controller" where
  "removeEndpointSliceFinalizer cl endpointslice c =
     (if endpointSliceHelper_HasLBFinalizer endpointslice then (None, c)
      else
        let updated = endpointslice\<lparr>eps_Finalizers :=
              removeString (eps_Finalizers endpointslice)
                endpointSliceHelper_LoadBalancerCleanupFinalizer\<rparr>
        in PatchEndpointSlice_call cl endpointslice updated c)"

text \<open>The loop of \<^verbatim>\<open>removeEndpointSliceFinalizerByService\<close> over the listed slices.\<close>

fun removeEndpointSliceFinalizerLoop ::
  "Cluster \<Rightarrow> EndpointSlice list \<Rightarrow> Controller \<Rightarrow> error option \<times> Controller" where
  "removeEndpointSliceFinalizerLoop cl [] c = (None, c)"
| "removeEndpointSliceFinalizerLoop cl (eps # epss) c =
     (if epsNeedsCleanup eps then
        (case removeEndpointSliceFinalizer cl eps c of
           (Some err, c1) \<Rightarrow>
             (Some (ErrorString (''failed to remove endpoints finalizer: '' @ Error err)), c1)
         | (None, c1) \<Rightarrow> removeEndpointSliceFinalizerLoop cl epss c1)
      else removeEndpointSliceFinalizerLoop cl epss c)"

definition removeEndpointSliceFinalizerByService ::
  "Cluster \<Rightarrow> Service \<Rightarrow> Controller \<Rightarrow> error option \<times> Controller" where
  "removeEndpointSliceFinalizerByService cl service c =
     (case endpointSliceLister_List cl (calls c) (Namespace service) (Name service) of
        Inl err \<Rightarrow>
          (Some (ErrorString
             (''syncLoadBalancerIfNeeded: failed to get endpoints : '' @ Error err)), c)
      | Inr epss \<Rightarrow> removeEndpointSliceFinalizerLoop cl epss c)"

definition patchStatus ::
  "Cluster \<Rightarrow> Service \<Rightarrow> LoadBalancerStatus option \<Rightarrow> LoadBalancerStatus option \<Rightarrow> Controller
     \<Rightarrow> error option \<times> Controller" where
  "patchStatus cl service previousStatus newStatus c =
     (case newStatus of
        None \<Rightarrow> (None, c)
      | Some new \<Rightarrow>
          if (case previousStatus of None \<Rightarrow> False
              | Some previous \<Rightarrow> LoadBalancerStatusEqual previous new)
          then (None, c)
          else
            let updated = service\<lparr>StatusLoadBalancer := new\<rparr>
            in PatchService_call cl service updated c)"

definition ensureLoadBalancer ::
  "Cluster \<Rightarrow> Service \<Rightarrow> EndpointSlice list \<Rightarrow> string \<Rightarrow> Controller
     \<Rightarrow> (LoadBalancerStatus option \<times> error option) \<times> Controller" where
  "ensureLoadBalancer cl service endpointSlices lbID c =
     (case EnsureLoadBalancer_call cl service endpointSlices lbID c of
        ((status, Some err), c1) \<Rightarrow> ((None, Some err), c1)
      | ((status, None), c1) \<Rightarrow> ((status, None), c1))"

subsection \<open>The load-balancer lifecycle\<close>

text \<open>
  The two values of \<^verbatim>\<open>loadBalancerOperation\<close>; the second is \<^verbatim>\<open>ensureLoadBalancer\<close>
  in the source, a name that the method \<^verbatim>\<open>ensureLoadBalancer\<close> has here.
\<close>

datatype loadBalancerOperation = deleteLoadBalancer | ensureLoadBalancerOp

text \<open>
  The two branches of \<^verbatim>\<open>syncLoadBalancerIfNeeded\<close> and the statements after them.
  A branch either returns from the function (\<open>Inl\<close>, with the error returned, if any) or
  goes on with the new status it computed (\<open>Inr\<close>).
\<close>

definition syncDeleteBranch ::
  "Cluster \<Rightarrow> Service \<Rightarrow> Controller
     \<Rightarrow> (error option + LoadBalancerStatus option) \<times> Controller" where
  "syncDeleteBranch cl service c =
     (let oldLbID = getStringFromServiceAnnotation service ServiceAnnotationLoadBalancerOldID ''''
      in case (if length oldLbID \<noteq> 0 then processLoadBalancerDelete cl service '''' oldLbID c
               else (None, c)) of
        (Some err, c1) \<Rightarrow>
          (Inl (Some (Wrapped (''failed to ensure load balancer'' @ [CHR 0x27]
                        @ ''processLoadBalancerDelete err: '') err)), c1)
      | (None, c1) \<Rightarrow>
         (let lbID = getStringFromServiceAnnotation service ServiceAnnotationLoadBalancerID ''''
          in case (if length lbID \<noteq> 0 then processLoadBalancerDelete cl service '''' lbID c1
                   else (None, c1)) of
            (Some err, c2) \<Rightarrow>
              (Inl (Some (Wrapped (''failed to ensure load balancer'' @ [CHR 0x27]
                            @ ''processLoadBalancerDelete err: '') err)), c2)
          | (None, c2) \<Rightarrow>
              (case removeFinalizer cl service c2 of
                 (Some err, c3) \<Rightarrow>
                   (Inl (Some (ErrorString
                      (''failed to remove load balancer cleanup finalizer: '' @ Error err))), c3)
               | (None, c3) \<Rightarrow>
                   (case removeAnnotationLbId cl service ServiceAnnotationLoadBalancerID c3 of
                      (Some err, c4) \<Rightarrow> (Inl (Some err), c4)
                    | (None, c4) \<Rightarrow>
                        (Inr (Some \<lparr>Ingress = []\<rparr>),
                         eventRecorder_Event EventTypeNormal ''DeletedLoadBalancer'' c4)))))"

text \<open>
  The loop of the Ensure branch over the endpoint slices; the text of its error leaves the
  printed slice out.
\<close>

fun addEndpointSliceFinalizerLoop ::
  "Cluster \<Rightarrow> EndpointSlice list \<Rightarrow> Controller \<Rightarrow> error option \<times> Controller" where
  "addEndpointSliceFinalizerLoop cl [] c = (None, c)"
| "addEndpointSliceFinalizerLoop cl (eps # epss) c =
     (case addEndpointSliceFinalizer cl eps c of
        (Some err, c1) \<Rightarrow>
          (Some (ErrorString
             (''failed to add load balancer cleanup finalizer to eps, err: '' @ Error err)), c1)
      | (None, c1) \<Rightarrow> addEndpointSliceFinalizerLoop cl epss c1)"

definition syncEnsureBranch ::
  "Cluster \<Rightarrow> Service \<Rightarrow> EndpointSlice list \<Rightarrow> Controller
     \<Rightarrow> (error option + LoadBalancerStatus option) \<times> Controller" where
  "syncEnsureBranch cl service endpointSlices c =
     (case addFinalizer cl service c of
        (Some err, c1) \<Rightarrow>
          (Inl (Some (ErrorString
             (''failed to add load balancer cleanup finalizer: '' @ Error err))), c1)
      | (None, c1) \<Rightarrow>
          (case addEndpointSliceFinalizerLoop cl endpointSlices c1 of
             (Some err, c2) \<Rightarrow> (Inl (Some err), c2)
           | (None, c2) \<Rightarrow>
              (let oldLbID =
                 getStringFromServiceAnnotation service ServiceAnnotationLoadBalancerOldID ''''
               in case (if length oldLbID \<noteq> 0
                        then (case processLoadBalancerDelete cl service '''' oldLbID c2 of
                                (r, c3) \<Rightarrow> (r, Some \<lparr>Ingress = []\<rparr>, c3))
                        else (None, None, c2)) of
                 (Some err, newStatus, c3) \<Rightarrow>
                   (Inl (Some (Wrapped
                      (''failed to delete  old load balancer,loadbalancer id: '' @ oldLbID
                         @ '', err: '') err)), c3)
               | (None, newStatus, c3) \<Rightarrow>
                  (let lbID =
                     getStringFromServiceAnnotation service ServiceAnnotationLoadBalancerID ''''
                   in if length lbID \<noteq> 0 then
                        (case ensureLoadBalancer cl service endpointSlices lbID c3 of
                           ((status, Some err), c4) \<Rightarrow>
                             if err = ImplementedElsewhere then (Inl None, c4)
                             else if Contains (ToLower (Error err)) ''conflict''
                             then (Inl None, eventRecorder_Event EventTypeWarning ''conflict'' c4)
                             else (Inl (Some (Wrapped ''failed to ensure load balancer: '' err)), c4)
                         | ((status, None), c4) \<Rightarrow>
                             if status = None
                             then (Inl (Some (ErrorString
                                     ''service status returned by EnsureLoadBalancer is nil'')), c4)
                             else (Inr status, c4))
                      else (Inr newStatus, c3)))))"

definition syncTail ::
  "Cluster \<Rightarrow> Service \<Rightarrow> LoadBalancerStatus option \<Rightarrow> LoadBalancerStatus option \<Rightarrow> Controller
     \<Rightarrow> error option \<times> Controller" where
  "syncTail cl service previousStatus newStatus c =
     (case removeEndpointSliceFinalizerByService cl service c of
        (Some err, c1) \<Rightarrow> (Some err, c1)
      | (None, c1) \<Rightarrow>
          (case removeAnnotationLbId cl service ServiceAnnotationLoadBalancerOldID c1 of
             (Some err, c2) \<Rightarrow> (Some err, c2)
           | (None, c2) \<Rightarrow>
               (case patchStatus cl service previousStatus newStatus c2 of
                  (Some err, c3) \<Rightarrow>
                    if \<not> IsNotFound err
                    then (Some (ErrorString
                            (''failed to update load balancer status: '' @ Error err)), c3)
                    else (None, c3)
                | (None, c3) \<Rightarrow> (None, c3))))"

definition syncLoadBalancerIfNeeded ::
  "Cluster \<Rightarrow> Service \<Rightarrow> string \<Rightarrow> EndpointSlice list \<Rightarrow> Controller
     \<Rightarrow> (loadBalancerOperation \<times> error option) \<times> Controller" where
  "syncLoadBalancerIfNeeded cl service key endpointSlices c =
     (let previousStatus = Some (StatusLoadBalancer service)
      in if \<not> wantsLoadBalancer service \<or> needsCleanup service then
           (case syncDeleteBranch cl service c of
              (Inl r, c1) \<Rightarrow> ((deleteLoadBalancer, r), c1)
            | (Inr newStatus, c1) \<Rightarrow>
                (case syncTail cl service previousStatus newStatus c1 of
                   (r, c2) \<Rightarrow> ((deleteLoadBalancer, r), c2)))
         else
           (case syncEnsureBranch cl service endpointSlices c of
              (Inl r, c1) \<Rightarrow> ((ensureLoadBalancerOp, r), c1)
            | (Inr newStatus, c1) \<Rightarrow>
                (case syncTail cl service previousStatus newStatus c1 of
                   (r, c2) \<Rightarrow> ((ensureLoadBalancerOp, r), c2))))"

subsection \<open>The service cache and the two paths of a pass\<close>

definition cache_getOrCreate :: "string \<Rightarrow> Controller \<Rightarrow> Service option \<times> Controller" where
  "cache_getOrCreate serviceName c =
     (case cache c serviceName of
        Some state \<Rightarrow> (state, c)
      | None \<Rightarrow> (None, c\<lparr>cache := (cache c)(serviceName \<mapsto> None)\<rparr>))"

definition cache_delete :: "string \<Rightarrow> Controller \<Rightarrow> Controller" where
  "cache_delete serviceName c = c\<lparr>cache := (cache c)(serviceName := None)\<rparr>"

definition processServiceCreateOrUpdate ::
  "Cluster \<Rightarrow> Service \<Rightarrow> string \<Rightarrow> EndpointSlice list \<Rightarrow> Controller
     \<Rightarrow> error option \<times> Controller" where
  "processServiceCreateOrUpdate cl service key endpointSlices c =
     (case cache_getOrCreate key c of
        (cachedState, c0) \<Rightarrow>
          (case (case cachedState of
                   None \<Rightarrow> (None, c0)
                 | Some cached \<Rightarrow>
                     if UID cached \<noteq> UID service then
                       (let lbID =
                          getStringFromServiceAnnotation cached ServiceAnnotationLoadBalancerID ''''
                        in case processLoadBalancerDelete cl cached key lbID c0 of
                          (Some err, c1) \<Rightarrow> (Some err, c1)
                        | (None, c1) \<Rightarrow>
                           (let oldLbID = getStringFromServiceAnnotation cached
                                  ServiceAnnotationLoadBalancerOldID ''''
                            in processLoadBalancerDelete cl cached key oldLbID c1))
                     else (None, c0)) of
             (Some err, c2) \<Rightarrow> (Some err, c2)
           | (None, c2) \<Rightarrow>
              (let c3 = c2\<lparr>cache := (cache c2)(key \<mapsto> Some service)\<rparr>
               in case syncLoadBalancerIfNeeded cl service key endpointSlices c3 of
                 ((op, Some err), c4) \<Rightarrow>
                   (Some err, eventRecorder_Event EventTypeWarning ''SyncLoadBalancerFailed'' c4)
               | ((op, None), c4) \<Rightarrow>
                   if op = deleteLoadBalancer then (None, cache_delete key c4) else (None, c4))))"

text \<open>
  \<^verbatim>\<open>processServiceDeletion\<close>. An entry whose state is nil makes
  \<^verbatim>\<open>getStringFromServiceAnnotation\<close> dereference a nil pointer.
\<close>

definition processServiceDeletion :: "Cluster \<Rightarrow> string \<Rightarrow> Controller \<Rightarrow> error option \<times> Controller" where
  "processServiceDeletion cl key c =
     (case cache c key of
        None \<Rightarrow> (None, c)
      | Some None \<Rightarrow> (Some (Panic ''invalid memory address or nil pointer dereference''), c)
      | Some (Some state) \<Rightarrow>
         (let lbID = getStringFromServiceAnnotation state ServiceAnnotationLoadBalancerID ''''
          in case processLoadBalancerDelete cl state key lbID c of
            (Some err, c1) \<Rightarrow> (Some err, c1)
          | (None, c1) \<Rightarrow>
             (let oldLbID =
                getStringFromServiceAnnotation state ServiceAnnotationLoadBalancerOldID ''''
              in case processLoadBalancerDelete cl state key oldLbID c1 of
                (Some err, c2) \<Rightarrow> (Some err, c2)
              | (None, c2) \<Rightarrow> (None, cache_delete key c2))))"

subsection \<open>One pass over a service key\<close>

text \<open>
  \<^verbatim>\<open>cache.MetaNamespaceKeyFunc\<close> and \<^verbatim>\<open>cache.SplitMetaNamespaceKey\<close> of client-go:
  the key of an object is \<^verbatim>\<open>namespace/name\<close>, or the name alone when the namespace
  is empty.
\<close>

definition MetaNamespaceKeyFunc :: "Service \<Rightarrow> string" where
  "MetaNamespaceKeyFunc svc =
     (if length (Namespace svc) > 0 then Namespace svc @ ''/'' @ Name svc else Name svc)"

fun Split_slash :: "string \<Rightarrow> string list" where
  "Split_slash [] = [[]]"
| "Split_slash (ch # s) =
     (if ch = CHR ''/'' then [] # Split_slash s
      else (case Split_slash s of [] \<Rightarrow> [[ch]] | p # ps \<Rightarrow> (ch # p) # ps))"

definition SplitMetaNamespaceKey :: "string \<Rightarrow> error + string \<times> string" where
  "SplitMetaNamespaceKey key =
     (case Split_slash key of
        [name] \<Rightarrow> Inr ('''', name)
      | [namespace, name] \<Rightarrow> Inr (namespace, name)
      | _ \<Rightarrow> Inl (ErrorString (''unexpected key format: '' @ [CHR 0x22] @ key @ [CHR 0x22])))"

text \<open>
  \<^verbatim>\<open>syncService\<close>. In the \<^verbatim>\<open>default\<close> case of its switch the statement
  \<^verbatim>\<open>epss, err := ...\<close> declares a new \<^verbatim>\<open>err\<close> in the scope of the case clause,
  and the result of \<^verbatim>\<open>processServiceCreateOrUpdate\<close> is assigned to that variable; the
  \<^verbatim>\<open>return err\<close> after the switch returns the outer one, which is nil there.
\<close>

definition syncService :: "Cluster \<Rightarrow> string \<Rightarrow> Controller \<Rightarrow> error option \<times> Controller" where
  "syncService cl key c =
     (case SplitMetaNamespaceKey key of
        Inl err \<Rightarrow> (Some err, c)
      | Inr (namespace, name) \<Rightarrow>
          (case kube_GetConfigMap cl (calls c) of
             (cmData, Some err) \<Rightarrow> (Some err, c)
           | (cmData, None) \<Rightarrow>
              (let clusterId = (case cmData ''clusterId'' of None \<Rightarrow> '''' | Some v \<Rightarrow> v)
               in if length clusterId = 0
                  then (Some (ErrorString
                          ''icks-cluster-info's configmap could not contain clusterId''), c)
                  else
                    let c1 = c\<lparr>clusterName := clusterId\<rparr>
                    in (case serviceLister_Get cl (calls c1) namespace name of
                          Inl err \<Rightarrow>
                            if IsNotFound err then processServiceDeletion cl key c1
                            else (Some err, c1)
                        | Inr service \<Rightarrow>
                            (case endpointSliceLister_List cl (calls c1)
                                    (Namespace service) (Name service) of
                               Inl err \<Rightarrow>
                                 if IsNotFound err then (None, c1) else (Some err, c1)
                             | Inr epss \<Rightarrow>
                                 (case processServiceCreateOrUpdate cl service key epss c1 of
                                    (err, c2) \<Rightarrow> (None, c2)))))))"

subsection \<open>The service queue and its worker\<close>

text \<open>
  Modelled from the spec: the rate-limited work queue of client-go, which is not among
  the sources. A key present once while unprocessed is not duplicated, a key being
  processed is not delivered again until it is done, \<^verbatim>\<open>Forget\<close> resets the backoff state
  of a key, \<^verbatim>\<open>AddAfter\<close> re-enqueues a key after the given duration, and
  \<^verbatim>\<open>AddRateLimited\<close> re-enqueues it after the delay of the exponential backoff limiter:
  the base delay doubled for every earlier failure of the key, and at most the maximal delay.
\<close>

definition NewNamedRateLimitingQueue :: "int \<Rightarrow> int \<Rightarrow> RateLimitingQueue" where
  "NewNamedRateLimitingQueue base maxd =
     \<lparr>queue = [], dirty = {}, processing = {}, shuttingDown = False,
      baseDelay = base, maxDelay = maxd, failures = (\<lambda>item. 0), waitingForAdd = []\<rparr>"

definition queue_Add :: "string \<Rightarrow> RateLimitingQueue \<Rightarrow> RateLimitingQueue" where
  "queue_Add item q =
     (if shuttingDown q then q
      else if item \<in> dirty q then q
      else
        let q1 = q\<lparr>dirty := insert item (dirty q)\<rparr>
        in if item \<in> processing q then q1 else q1\<lparr>queue := queue q1 @ [item]\<rparr>)"

datatype GetResult = Blocked | ShutDown | Item string RateLimitingQueue

definition queue_Get :: "RateLimitingQueue \<Rightarrow> GetResult" where
  "queue_Get q =
     (case queue q of
        [] \<Rightarrow> if shuttingDown q then ShutDown else Blocked
      | item # rest \<Rightarrow>
          Item item (q\<lparr>queue := rest, processing := insert item (processing q),
                       dirty := dirty q - {item}\<rparr>))"

definition queue_Done :: "string \<Rightarrow> RateLimitingQueue \<Rightarrow> RateLimitingQueue" where
  "queue_Done item q =
     (let q1 = q\<lparr>processing := processing q - {item}\<rparr>
      in if item \<in> dirty q1 then q1\<lparr>queue := queue q1 @ [item]\<rparr> else q1)"

definition queue_Forget :: "string \<Rightarrow> RateLimitingQueue \<Rightarrow> RateLimitingQueue" where
  "queue_Forget item q = q\<lparr>failures := (failures q)(item := 0)\<rparr>"

definition rateLimiter_When :: "string \<Rightarrow> RateLimitingQueue \<Rightarrow> int \<times> RateLimitingQueue" where
  "rateLimiter_When item q =
     (let exp = failures q item;
          q1 = q\<lparr>failures := (failures q)(item := exp + 1)\<rparr>;
          backoff = baseDelay q * 2 ^ exp
      in if backoff > maxDelay q then (maxDelay q, q1) else (backoff, q1))"

definition queue_AddAfter :: "string \<Rightarrow> int \<Rightarrow> RateLimitingQueue \<Rightarrow> RateLimitingQueue" where
  "queue_AddAfter item duration q =
     (if shuttingDown q then q
      else if duration \<le> 0 then queue_Add item q
      else q\<lparr>waitingForAdd := waitingForAdd q @ [(item, duration)]\<rparr>)"

definition queue_AddRateLimited :: "string \<Rightarrow> RateLimitingQueue \<Rightarrow> RateLimitingQueue" where
  "queue_AddRateLimited item q =
     (case rateLimiter_When item q of (duration, q1) \<Rightarrow> queue_AddAfter item duration q1)"

text \<open>The service queue as \<^verbatim>\<open>New\<close> builds it.\<close>

definition New_serviceQueue :: RateLimitingQueue where
  "New_serviceQueue = NewNamedRateLimitingQueue minRetryDelay maxRetryDelay"

text \<open>
  \<^verbatim>\<open>processNextServiceItem\<close>: \<open>None\<close> while \<^verbatim>\<open>Get\<close> blocks on an empty queue; the
  deferred \<^verbatim>\<open>Done\<close> runs last.
\<close>

definition processNextServiceItem ::
  "Cluster \<Rightarrow> RateLimitingQueue \<times> Controller \<Rightarrow> (bool \<times> RateLimitingQueue \<times> Controller) option" where
  "processNextServiceItem cl qc =
     (case qc of (q, c) \<Rightarrow>
        (case queue_Get q of
           Blocked \<Rightarrow> None
         | ShutDown \<Rightarrow> Some (False, q, c)
         | Item key q1 \<Rightarrow>
             (case syncService cl key c of
                (None, c1) \<Rightarrow> Some (True, queue_Done key (queue_Forget key q1), c1)
              | (Some err, c1) \<Rightarrow>
                  (case asRetryError err of
                     Some retryAfter \<Rightarrow>
                       Some (True, queue_Done key (queue_AddAfter key retryAfter q1), c1)
                   | None \<Rightarrow>
                       Some (True, queue_Done key (queue_AddRateLimited key q1), c1)))))"

subsection \<open>Node eligibility\<close>

definition nodeIncludedPredicate :: "Node \<Rightarrow> bool" where
  "nodeIncludedPredicate node = (node_Labels node LabelNodeExcludeBalancers = None)"

fun nodeUnTaintedLoop :: "string list \<Rightarrow> bool" where
  "nodeUnTaintedLoop [] = True"
| "nodeUnTaintedLoop (key # taints) =
     (if key = ToBeDeletedTaint then False else nodeUnTaintedLoop taints)"

definition nodeUnTaintedPredicate :: "Node \<Rightarrow> bool" where
  "nodeUnTaintedPredicate node = nodeUnTaintedLoop (node_Taints node)"

fun nodeReadyLoop :: "(string \<times> string) list \<Rightarrow> bool" where
  "nodeReadyLoop [] = False"
| "nodeReadyLoop ((condType, condStatus) # conds) =
     (if condType = NodeReady then condStatus = ConditionTrue else nodeReadyLoop conds)"

definition nodeReadyPredicate :: "Node \<Rightarrow> bool" where
  "nodeReadyPredicate node = nodeReadyLoop (node_Conditions node)"

text \<open>\<^verbatim>\<open>DeletionTimestamp.IsZero()\<close>: nil, or the zero instant.\<close>

definition nodeNotDeletedPredicate :: "Node \<Rightarrow> bool" where
  "nodeNotDeletedPredicate node =
     (case node_DeletionTimestamp node of None \<Rightarrow> True | Some t \<Rightarrow> t = 0)"

definition allNodePredicates :: "(Node \<Rightarrow> bool) list" where
  "allNodePredicates = [nodeIncludedPredicate, nodeUnTaintedPredicate, nodeReadyPredicate]"

definition etpLocalNodePredicates :: "(Node \<Rightarrow> bool) list" where
  "etpLocalNodePredicates = [nodeIncludedPredicate, nodeUnTaintedPredicate, nodeReadyPredicate]"

definition stableNodeSetPredicates :: "(Node \<Rightarrow> bool) list" where
  "stableNodeSetPredicates =
     [nodeNotDeletedPredicate, nodeIncludedPredicate, nodeUnTaintedPredicate]"

definition getNodePredicatesForService :: "Cluster \<Rightarrow> Service \<Rightarrow> (Node \<Rightarrow> bool) list" where
  "getNodePredicatesForService cl service =
     (if StableLoadBalancerNodeSet cl then stableNodeSetPredicates
      else if ExternalTrafficPolicy service = ServiceExternalTrafficPolicyLocal
      then etpLocalNodePredicates
      else allNodePredicates)"

fun respectsPredicates :: "Node \<Rightarrow> (Node \<Rightarrow> bool) list \<Rightarrow> bool" where
  "respectsPredicates node [] = True"
| "respectsPredicates node (p # predicates) =
     (if \<not> p node then False else respectsPredicates node predicates)"

definition filterWithPredicates :: "Node list \<Rightarrow> (Node \<Rightarrow> bool) list \<Rightarrow> Node list" where
  "filterWithPredicates nodes predicates =
     filter (\<lambda>node. respectsPredicates node predicates) nodes"

definition listWithPredicates ::
  "Cluster \<Rightarrow> Controller \<Rightarrow> (Node \<Rightarrow> bool) list \<Rightarrow> error + Node list" where
  "listWithPredicates cl c predicates =
     (case nodeLister_List cl (calls c) of
        Inl err \<Rightarrow> Inl err
      | Inr nodes \<Rightarrow> Inr (filterWithPredicates nodes predicates))"

subsection \<open>Node resync of one service\<close>

definition storeLastSyncedNodes :: "Service \<Rightarrow> Node list \<Rightarrow> Controller \<Rightarrow> Controller" where
  "storeLastSyncedNodes svc nodes c =
     c\<lparr>lastSyncedNodes := (lastSyncedNodes c)(MetaNamespaceKeyFunc svc \<mapsto> nodes)\<rparr>"

definition getLastSyncedNodes :: "Service \<Rightarrow> Controller \<Rightarrow> Node list" where
  "getLastSyncedNodes svc c =
     (case lastSyncedNodes c (MetaNamespaceKeyFunc svc) of None \<Rightarrow> [] | Some nodes \<Rightarrow> nodes)"

text \<open>
  The map \<^verbatim>\<open>mOld\<close> (or \<^verbatim>\<open>mNew\<close>) of \<^verbatim>\<open>nodesSufficientlyEqual\<close>, from node names to
  provider identifiers, as an association list with one entry for each key: a later node
  of the same name overwrites the entry. \<^verbatim>\<open>reflect.DeepEqual\<close> of two such maps
  compares their entries whatever the order.
\<close>

definition distillMap :: "Node list \<Rightarrow> (string \<times> string) list" where
  "distillMap nodes = foldl (\<lambda>m n. AList.update (node_Name n) (node_ProviderID n) m) [] nodes"

definition nodesSufficientlyEqual :: "Node list \<Rightarrow> Node list \<Rightarrow> bool" where
  "nodesSufficientlyEqual oldNodes newNodes =
     (if length oldNodes \<noteq> length newNodes then False
      else set (distillMap oldNodes) = set (distillMap newNodes))"

definition lockedUpdateLoadBalancerHosts ::
  "Cluster \<Rightarrow> Service \<Rightarrow> Node list \<Rightarrow> Controller \<Rightarrow> error option \<times> Controller" where
  "lockedUpdateLoadBalancerHosts cl service hosts c =
     (case UpdateLoadBalancer_call cl service hosts c of
        (None, c1) \<Rightarrow>
          if length hosts = 0
          then (None, eventRecorder_Event EventTypeWarning ''UnAvailableLoadBalancer'' c1)
          else (None, eventRecorder_Event EventTypeNormal ''UpdatedLoadBalancer'' c1)
      | (Some err, c1) \<Rightarrow>
          if err = ImplementedElsewhere then (None, c1)
          else
            (case GetLoadBalancer_call cl service c1 of
               ((exists, Some err2), c2) \<Rightarrow>
                 (Some err, eventRecorder_Event EventTypeWarning ''UpdateLoadBalancerFailed'' c2)
             | ((exists, None), c2) \<Rightarrow>
                 if \<not> exists then (None, c2)
                 else (Some err,
                       eventRecorder_Event EventTypeWarning ''UpdateLoadBalancerFailed'' c2)))"

text \<open>\<^verbatim>\<open>nodeSyncService\<close>: the result says whether the caller should retry.\<close>

definition nodeSyncService :: "Cluster \<Rightarrow> Service option \<Rightarrow> Controller \<Rightarrow> bool \<times> Controller" where
  "nodeSyncService cl svc c =
     (case svc of
        None \<Rightarrow> (False, c)
      | Some s \<Rightarrow>
          if \<not> wantsLoadBalancer s then (False, c)
          else
            (case listWithPredicates cl c [] of
               Inl err \<Rightarrow> (True, c)
             | Inr listed \<Rightarrow>
                (let newNodes = filterWithPredicates listed (getNodePredicatesForService cl s);
                     oldNodes = filterWithPredicates (getLastSyncedNodes s c)
                                  (getNodePredicatesForService cl s);
                     c1 = storeLastSyncedNodes s newNodes c
                 in if nodesSufficientlyEqual oldNodes newNodes then (False, c1)
                    else
                      (case lockedUpdateLoadBalancerHosts cl s newNodes c1 of
                         (Some err, c2) \<Rightarrow> (True, c2)
                       | (None, c2) \<Rightarrow> (False, c2)))))"

subsection \<open>Example objects\<close>

text \<open>
  A cluster whose collaborators all succeed: the provider answers an ensure call with one
  ingress address, the service lister finds no service, the other listers return the given
  endpoint slices and nodes, and the stable-node-set feature gate is off.
\<close>

definition exampleStatus :: LoadBalancerStatus where
  "exampleStatus = \<lparr>Ingress = [\<lparr>IP = ''10.0.0.7'', Hostname = '''', IPMode = None, Ports = []\<rparr>]\<rparr>"

definition exampleCluster :: "EndpointSlice list \<Rightarrow> Node list \<Rightarrow> Cluster" where
  "exampleCluster epss nodes =
     \<lparr>balancer_EnsureLoadBalancer = (\<lambda>t s es i. (Some exampleStatus, None)),
      balancer_EnsureLoadBalancerDeleted = (\<lambda>t s i. None),
      balancer_UpdateLoadBalancer = (\<lambda>t s ns. None),
      balancer_GetLoadBalancer = (\<lambda>t s. (True, None)),
      kube_PatchService = (\<lambda>t a b. None),
      kube_PatchEndpointSlice = (\<lambda>t a b. None),
      kube_GetConfigMap = (\<lambda>t. ([''clusterId'' \<mapsto> ''c1''], None)),
      serviceLister_Get = (\<lambda>t ns n. Inl (StatusError ''NotFound'' ''service not found'')),
      endpointSliceLister_List = (\<lambda>t ns n. Inr epss),
      nodeLister_List = (\<lambda>t. Inr nodes),
      StableLoadBalancerNodeSet = False\<rparr>"

text \<open>
  A service of type LoadBalancer in namespace \<^verbatim>\<open>default\<close> with the current identifier
  \<^verbatim>\<open>lb-1\<close>, no finalizer and an empty status; the same service without annotations; and
  a ClusterIP service that still carries the identifier.
\<close>

definition exampleService :: Service where
  "exampleService =
     \<lparr>Namespace = ''default'', Name = ''web'', UID = ''uid-1'',
      Annotations = [ServiceAnnotationLoadBalancerID \<mapsto> ''lb-1''],
      Finalizers = [], DeletionTimestamp = None, SpecType = ''LoadBalancer'',
      LoadBalancerClass = None, ExternalTrafficPolicy = ''Cluster'',
      StatusLoadBalancer = \<lparr>Ingress = []\<rparr>\<rparr>"

definition plainService :: Service where
  "plainService = exampleService\<lparr>Annotations := Map.empty\<rparr>"

definition clusterIPService :: Service where
  "clusterIPService = exampleService\<lparr>SpecType := ''ClusterIP''\<rparr>"

definition localService :: Service where
  "localService = exampleService\<lparr>ExternalTrafficPolicy := ''Local''\<rparr>"

definition deletingService :: Service where
  "deletingService = exampleService\<lparr>DeletionTimestamp := Some 17\<rparr>"

definition exampleKey :: string where
  "exampleKey = ''default/web''"

definition exampleController :: Controller where
  "exampleController =
     \<lparr>clusterName = ''c1'', cache = Map.empty, lastSyncedNodes = Map.empty, calls = []\<rparr>"

text \<open>
  An endpoint slice of the service without the finalizer, and one that has the finalizer
  and a deletion timestamp.
\<close>

definition exampleSlice :: EndpointSlice where
  "exampleSlice =
     \<lparr>eps_Namespace = ''default'', eps_Name = ''web-abc'',
      eps_Labels = [''kubernetes.io/service-name'' \<mapsto> ''web''],
      eps_Finalizers = [], eps_DeletionTimestamp = None, eps_AddressType = ''IPv4''\<rparr>"

definition deletingSlice :: EndpointSlice where
  "deletingSlice =
     exampleSlice\<lparr>eps_Finalizers := [endpointSliceHelper_LoadBalancerCleanupFinalizer],
                   eps_DeletionTimestamp := Some 42\<rparr>"

text \<open>Two ready nodes with the same provider identifier, and a node that is not ready.\<close>

definition nodeA :: Node where
  "nodeA =
     \<lparr>node_Name = ''node-a'', node_Labels = Map.empty, node_DeletionTimestamp = None,
      node_ProviderID = ''provider://1'', node_Taints = [],
      node_Conditions = [(''Ready'', ''True'')]\<rparr>"

definition nodeB :: Node where
  "nodeB = nodeA\<lparr>node_Name := ''node-b''\<rparr>"

definition notReadyNode :: Node where
  "notReadyNode = nodeA\<lparr>node_Conditions := [(''Ready'', ''False'')]\<rparr>"

text \<open>
  Further examples: a ClusterIP service without annotations; a service that is being
  deleted and has the finalizer and both identifier annotations; a service whose published
  status has the same address as \<open>exampleStatus\<close> but lists a port; node A with another
  label; a cluster whose provider fails every update of the backends; and a cluster whose
  provider answers every delete with the given error.
\<close>

definition bareClusterIPService :: Service where
  "bareClusterIPService = plainService\<lparr>SpecType := ''ClusterIP''\<rparr>"

definition finalizedDeletingService :: Service where
  "finalizedDeletingService =
     exampleService\<lparr>Annotations := [ServiceAnnotationLoadBalancerID \<mapsto> ''lb-1'',
                                      ServiceAnnotationLoadBalancerOldID \<mapsto> ''lb-0''],
                     Finalizers := [servicehelper_LoadBalancerCleanupFinalizer],
                     DeletionTimestamp := Some 17\<rparr>"

definition publishedService :: Service where
  "publishedService =
     exampleService\<lparr>Finalizers := [servicehelper_LoadBalancerCleanupFinalizer],
                     StatusLoadBalancer :=
                       \<lparr>Ingress = [\<lparr>IP = ''10.0.0.7'', Hostname = '''', IPMode = None,
                                     Ports = [\<lparr>Port = 80, Protocol = ''TCP''\<rparr>]\<rparr>]\<rparr>\<rparr>"

definition relabelledNodeA :: Node where
  "relabelledNodeA = nodeA\<lparr>node_Labels := [''topology.kubernetes.io/zone'' \<mapsto> ''z2'']\<rparr>"

definition failingUpdateCluster :: "Node list \<Rightarrow> Cluster" where
  "failingUpdateCluster nodes =
     (exampleCluster [] nodes)
       \<lparr>balancer_UpdateLoadBalancer := (\<lambda>t s ns. Some (ErrorString ''quota exceeded''))\<rparr>"

definition failingDeleteCluster :: "error \<Rightarrow> Cluster" where
  "failingDeleteCluster err =
     (exampleCluster [] [])\<lparr>balancer_EnsureLoadBalancerDeleted := (\<lambda>t s i. Some err)\<rparr>"

definition cachedController :: "Service \<Rightarrow> Controller" where
  "cachedController svc = exampleController\<lparr>cache := [exampleKey \<mapsto> Some svc]\<rparr>"

definition exampleQueue :: RateLimitingQueue where
  "exampleQueue = queue_Add exampleKey New_serviceQueue"

subsection \<open>Notions used in the statements\<close>

text \<open>The calls made between two states of the controller, in order.\<close>

definition newCalls :: "Controller \<Rightarrow> Controller \<Rightarrow> call list" where
  "newCalls c c' = drop (length (calls c)) (calls c')"

text \<open>The trace of \<open>c'\<close> is the trace of \<open>c\<close> followed by calls that all satisfy \<open>P\<close>.\<close>

definition adds :: "(call \<Rightarrow> bool) \<Rightarrow> Controller \<Rightarrow> Controller \<Rightarrow> bool" where
  "adds P c c' = (\<exists>new. calls c' = calls c @ new \<and> list_all P new)"

text \<open>
  An answer of the provider to a delete that \<^verbatim>\<open>processLoadBalancerDelete\<close> takes for
  success: no error, or an error whose text contains \<^verbatim>\<open>not found\<close>.
\<close>

definition tolerated :: "error option \<Rightarrow> bool" where
  "tolerated r = (case r of None \<Rightarrow> True | Some err \<Rightarrow> Contains (Error err) ''not found'')"

text \<open>A patch of a service leaves its annotations as they are.\<close>

fun keepsAnnotations :: "call \<Rightarrow> bool" where
  "keepsAnnotations (PatchService old new) = (Annotations new = Annotations old)"
| "keepsAnnotations x = True"



text \<open>The name of a node with its provider identifier.\<close>

definition namedProviderID :: "Node \<Rightarrow> string \<times> string" where
  "namedProviderID n = (node_Name n, node_ProviderID n)"

section \<open>Properties\<close>

subsection \<open>Unfolding rules\<close>

lemmas example_defs =
  exampleCluster_def exampleService_def exampleController_def exampleSlice_def
  deletingSlice_def exampleStatus_def plainService_def clusterIPService_def localService_def
  deletingService_def exampleKey_def nodeA_def nodeB_def notReadyNode_def
  bareClusterIPService_def finalizedDeletingService_def publishedService_def
  relabelledNodeA_def failingUpdateCluster_def failingDeleteCluster_def cachedController_def

lemmas constant_defs =
  ServiceAnnotationLoadBalancerID_def ServiceAnnotationLoadBalancerOldID_def
  ServiceTypeLoadBalancer_def ServiceExternalTrafficPolicyLocal_def
  LabelNodeExcludeBalancers_def NodeReady_def ConditionTrue_def EventTypeNormal_def
  EventTypeWarning_def endpointSliceHelper_LoadBalancerCleanupFinalizer_def
  servicehelper_LoadBalancerCleanupFinalizer_def ToBeDeletedTaint_def

lemmas call_defs =
  record_call_def eventRecorder_Event_def EnsureLoadBalancerDeleted_call_def
  EnsureLoadBalancer_call_def UpdateLoadBalancer_call_def GetLoadBalancer_call_def
  PatchService_call_def PatchEndpointSlice_call_def

lemmas lifecycle_defs =
  endpointSliceHelper_HasLBFinalizer_def servicehelper_HasLBFinalizer_def
  servicehelper_HasAnnoation_def wantsLoadBalancer_def needsCleanup_def epsNeedsCleanup_def
  getStringFromServiceAnnotation_def removeString_def processLoadBalancerDelete_def
  addFinalizer_def addEndpointSliceFinalizer_def removeFinalizer_def removeAnnotationLbId_def
  removeEndpointSliceFinalizer_def removeEndpointSliceFinalizerByService_def patchStatus_def
  ensureLoadBalancer_def syncDeleteBranch_def syncEnsureBranch_def syncTail_def
  syncLoadBalancerIfNeeded_def LoadBalancerStatusEqual_def ingressSliceEqual_def
  ingressEqual_def cache_getOrCreate_def cache_delete_def processServiceCreateOrUpdate_def
  processServiceDeletion_def

subsection \<open>What a function adds to the trace\<close>

text \<open>
  Each lemma of this part says that a function of the lifecycle extends the trace by calls
  that satisfy a predicate \<open>P\<close>, given that \<open>P\<close> holds of the calls the function can make
  under the conditions in which it makes them.
\<close>

lemma adds_refl: "adds P c c"
  by (simp add: adds_def)

lemma adds_step: "adds P c c1 \<Longrightarrow> P x \<Longrightarrow> adds P c (record_call x c1)"
  by (auto simp: adds_def record_call_def)

lemma adds_event: "adds P c c1 \<Longrightarrow> P (Event t r) \<Longrightarrow> adds P c (eventRecorder_Event t r c1)"
  by (simp add: eventRecorder_Event_def adds_step)

lemma adds_same: "calls c2 = calls c1 \<Longrightarrow> adds P c c1 \<Longrightarrow> adds P c c2"
  by (simp add: adds_def)

lemma processLoadBalancerDelete_adds:
  assumes "processLoadBalancerDelete cl s key lbId c0 = (r, c1)" "adds P c c0"
    "\<And>cn. P (EnsureLoadBalancerDeleted cn s lbId)" "\<And>t r. P (Event t r)"
  shows "adds P c c1"
  using assms
  by (auto simp: processLoadBalancerDelete_def EnsureLoadBalancerDeleted_call_def
      split: option.splits if_splits intro!: adds_step adds_event)

lemma addFinalizer_adds:
  assumes "addFinalizer cl s c0 = (r, c1)" "adds P c c0"
    "\<not> servicehelper_HasLBFinalizer s \<Longrightarrow>
       P (PatchService s (s\<lparr>Finalizers := Finalizers s @ [servicehelper_LoadBalancerCleanupFinalizer]\<rparr>))"
  shows "adds P c c1"
  using assms
  by (auto simp: addFinalizer_def PatchService_call_def Let_def split: if_splits intro!: adds_step)

lemma removeFinalizer_adds:
  assumes "removeFinalizer cl s c0 = (r, c1)" "adds P c c0"
    "needsCleanup s \<Longrightarrow>
       P (PatchService s (s\<lparr>Finalizers := removeString (Finalizers s) servicehelper_LoadBalancerCleanupFinalizer\<rparr>))"
  shows "adds P c c1"
  using assms
  by (auto simp: removeFinalizer_def PatchService_call_def Let_def split: if_splits intro!: adds_step)

lemma removeAnnotationLbId_adds:
  assumes "removeAnnotationLbId cl s a c0 = (r, c1)" "adds P c c0"
    "DeletionTimestamp s = None \<Longrightarrow> Annotations s a \<noteq> None \<Longrightarrow>
       P (PatchService s (s\<lparr>Annotations := removeAnnotationKey (Annotations s) a\<rparr>))"
  shows "adds P c c1"
  using assms
  by (auto simp: removeAnnotationLbId_def PatchService_call_def servicehelper_HasAnnoation_def Let_def
      split: if_splits intro!: adds_step)

lemma patchStatus_adds:
  assumes "patchStatus cl s (Some prev) new c0 = (r, c1)" "adds P c c0"
    "\<And>n. new = Some n \<Longrightarrow> \<not> LoadBalancerStatusEqual prev n \<Longrightarrow>
       P (PatchService s (s\<lparr>StatusLoadBalancer := n\<rparr>))"
  shows "adds P c c1"
  using assms
  by (auto simp: patchStatus_def PatchService_call_def Let_def
      split: if_splits option.splits intro!: adds_step)

lemma addEndpointSliceFinalizerLoop_id: "addEndpointSliceFinalizerLoop cl epss c = (None, c)"
  by (induction epss) (simp_all add: addEndpointSliceFinalizer_def)

lemma removeEndpointSliceFinalizerLoop_id: "removeEndpointSliceFinalizerLoop cl epss c = (None, c)"
  by (induction epss) (simp_all add: removeEndpointSliceFinalizer_def epsNeedsCleanup_def)

lemma removeEndpointSliceFinalizerByService_calls:
  "removeEndpointSliceFinalizerByService cl s c0 = (r, c1) \<Longrightarrow> c1 = c0"
  by (auto simp: removeEndpointSliceFinalizerByService_def removeEndpointSliceFinalizerLoop_id split: sum.splits)

lemma ensureLoadBalancer_adds:
  assumes "ensureLoadBalancer cl s epss lbID c0 = (r, c1)" "adds P c c0"
    "\<And>cn. P (EnsureLoadBalancer cn s epss lbID)"
  shows "adds P c c1"
  using assms
  by (auto simp: ensureLoadBalancer_def EnsureLoadBalancer_call_def split: option.splits prod.splits intro!: adds_step)

lemma syncTail_adds:
  assumes "syncTail cl s (Some prev) new c0 = (r, c1)" "adds P c c0"
    "\<And>a. DeletionTimestamp s = None \<Longrightarrow> Annotations s a \<noteq> None \<Longrightarrow>
       P (PatchService s (s\<lparr>Annotations := removeAnnotationKey (Annotations s) a\<rparr>))"
    "\<And>n. new = Some n \<Longrightarrow> \<not> LoadBalancerStatusEqual prev n \<Longrightarrow>
       P (PatchService s (s\<lparr>StatusLoadBalancer := n\<rparr>))"
  shows "adds P c c1"
proof -
  obtain r1 d1 where s1: "removeEndpointSliceFinalizerByService cl s c0 = (r1, d1)"
    by (cases "removeEndpointSliceFinalizerByService cl s c0") auto
  have a1: "adds P c d1"
    using removeEndpointSliceFinalizerByService_calls[OF s1] assms(2) by simp
  obtain r2 d2 where s2: "removeAnnotationLbId cl s ServiceAnnotationLoadBalancerOldID d1 = (r2, d2)"
    by (cases "removeAnnotationLbId cl s ServiceAnnotationLoadBalancerOldID d1") auto
  have a2: "adds P c d2"
    using removeAnnotationLbId_adds[OF s2 a1] assms(3) by simp
  obtain r3 d3 where s3: "patchStatus cl s (Some prev) new d2 = (r3, d3)"
    by (cases "patchStatus cl s (Some prev) new d2") auto
  have a3: "adds P c d3"
    using patchStatus_adds[OF s3 a2] assms(4) by simp
  show ?thesis
    using assms(1) s1 s2 s3 a1 a2 a3
    unfolding syncTail_def
    by (auto split: option.splits if_splits)
qed


lemma syncDeleteBranch_adds:
  assumes run: "syncDeleteBranch cl s c0 = (r, c1)" and inv: "adds P c c0"
    and ev: "\<And>t r. P (Event t r)"
    and del: "\<And>cn lbId. lbId \<noteq> [] \<Longrightarrow>
         lbId = getStringFromServiceAnnotation s ServiceAnnotationLoadBalancerOldID [] \<or>
         lbId = getStringFromServiceAnnotation s ServiceAnnotationLoadBalancerID [] \<Longrightarrow>
         P (EnsureLoadBalancerDeleted cn s lbId)"
    and frm: "needsCleanup s \<Longrightarrow>
       P (PatchService s (s\<lparr>Finalizers := removeString (Finalizers s) servicehelper_LoadBalancerCleanupFinalizer\<rparr>))"
    and ann: "\<And>a. DeletionTimestamp s = None \<Longrightarrow> Annotations s a \<noteq> None \<Longrightarrow>
       P (PatchService s (s\<lparr>Annotations := removeAnnotationKey (Annotations s) a\<rparr>))"
  shows "adds P c c1"
proof -
  define old where "old = getStringFromServiceAnnotation s ServiceAnnotationLoadBalancerOldID []"
  define cur where "cur = getStringFromServiceAnnotation s ServiceAnnotationLoadBalancerID []"
  obtain r1 d1 where s1: "(if length old \<noteq> 0 then processLoadBalancerDelete cl s [] old c0 else (None, c0)) = (r1, d1)"
    by (cases "if length old \<noteq> 0 then processLoadBalancerDelete cl s [] old c0 else (None, c0)") auto
  have a1: "adds P c d1"
    using s1 inv del[of old] ev processLoadBalancerDelete_adds[of cl s "[]" old c0 r1 d1 P c]
    by (auto simp: old_def split: if_splits)
  obtain r2 d2 where s2: "(if length cur \<noteq> 0 then processLoadBalancerDelete cl s [] cur d1 else (None, d1)) = (r2, d2)"
    by (cases "if length cur \<noteq> 0 then processLoadBalancerDelete cl s [] cur d1 else (None, d1)") auto
  have a2: "adds P c d2"
    using s2 a1 del[of cur] ev processLoadBalancerDelete_adds[of cl s "[]" cur d1 r2 d2 P c]
    by (auto simp: cur_def split: if_splits)
  obtain r3 d3 where s3: "removeFinalizer cl s d2 = (r3, d3)"
    by (cases "removeFinalizer cl s d2") auto
  have a3: "adds P c d3"
    using removeFinalizer_adds[OF s3 a2] frm by simp
  obtain r4 d4 where s4: "removeAnnotationLbId cl s ServiceAnnotationLoadBalancerID d3 = (r4, d4)"
    by (cases "removeAnnotationLbId cl s ServiceAnnotationLoadBalancerID d3") auto
  have a4: "adds P c d4"
    using removeAnnotationLbId_adds[OF s4 a3] ann by simp
  have a5: "adds P c (eventRecorder_Event EventTypeNormal ''DeletedLoadBalancer'' d4)"
    using a4 ev by (rule adds_event)
  show ?thesis
    using run s1 s2 s3 s4 a1 a2 a3 a4 a5
    unfolding syncDeleteBranch_def Let_def old_def[symmetric] cur_def[symmetric]
    by (auto split: option.splits)
qed


lemma syncEnsureBranch_adds:
  assumes run: "syncEnsureBranch cl s epss c0 = (r, c1)" and inv: "adds P c c0"
    and ev: "\<And>t r. P (Event t r)"
    and del: "\<And>cn lbId. lbId \<noteq> [] \<Longrightarrow>
         lbId = getStringFromServiceAnnotation s ServiceAnnotationLoadBalancerOldID [] \<Longrightarrow>
         P (EnsureLoadBalancerDeleted cn s lbId)"
    and ens: "\<And>cn lbId. lbId \<noteq> [] \<Longrightarrow>
         lbId = getStringFromServiceAnnotation s ServiceAnnotationLoadBalancerID [] \<Longrightarrow>
         P (EnsureLoadBalancer cn s epss lbId)"
    and fadd: "\<not> servicehelper_HasLBFinalizer s \<Longrightarrow>
       P (PatchService s (s\<lparr>Finalizers := Finalizers s @ [servicehelper_LoadBalancerCleanupFinalizer]\<rparr>))"
  shows "adds P c c1"
proof -
  define old where "old = getStringFromServiceAnnotation s ServiceAnnotationLoadBalancerOldID []"
  define cur where "cur = getStringFromServiceAnnotation s ServiceAnnotationLoadBalancerID []"
  obtain r1 d1 where s1: "addFinalizer cl s c0 = (r1, d1)"
    by (cases "addFinalizer cl s c0") auto
  have a1: "adds P c d1"
    using addFinalizer_adds[OF s1 inv] fadd by simp
  obtain r2 d2 where s2: "processLoadBalancerDelete cl s [] old d1 = (r2, d2)"
    by (cases "processLoadBalancerDelete cl s [] old d1") auto
  have a2: "old \<noteq> [] \<Longrightarrow> adds P c d2"
    using processLoadBalancerDelete_adds[OF s2 a1] del[of old] ev by (simp add: old_def)
  define d2' where "d2' = (if length old \<noteq> 0 then d2 else d1)"
  have a2': "adds P c d2'"
    using a1 a2 by (simp add: d2'_def)
  obtain r3 d3 where s3: "ensureLoadBalancer cl s epss cur d2' = (r3, d3)"
    by (cases "ensureLoadBalancer cl s epss cur d2'") auto
  have a3: "cur \<noteq> [] \<Longrightarrow> adds P c d3"
    using ensureLoadBalancer_adds[OF s3 a2'] ens[of cur] by (simp add: cur_def)
  have a4: "cur \<noteq> [] \<Longrightarrow> adds P c (eventRecorder_Event EventTypeWarning ''conflict'' d3)"
    using a3 ev by (simp add: adds_event)
  show ?thesis
    using run s1 s2 s3 a1 a2' a3 a4
    unfolding syncEnsureBranch_def Let_def old_def[symmetric] cur_def[symmetric] d2'_def
    by (auto simp: addEndpointSliceFinalizerLoop_id split: option.splits if_splits prod.splits)
qed

lemma syncLoadBalancerIfNeeded_adds:
  assumes run: "syncLoadBalancerIfNeeded cl s key epss c0 = (r, c1)" and inv: "adds P c c0"
    and ev: "\<And>t r. P (Event t r)"
    and del: "\<And>cn lbId. lbId \<noteq> [] \<Longrightarrow>
         lbId = getStringFromServiceAnnotation s ServiceAnnotationLoadBalancerOldID [] \<or>
         lbId = getStringFromServiceAnnotation s ServiceAnnotationLoadBalancerID [] \<and>
         (\<not> wantsLoadBalancer s \<or> needsCleanup s) \<Longrightarrow>
         P (EnsureLoadBalancerDeleted cn s lbId)"
    and ens: "\<And>cn lbId. lbId \<noteq> [] \<Longrightarrow>
         lbId = getStringFromServiceAnnotation s ServiceAnnotationLoadBalancerID [] \<Longrightarrow>
         wantsLoadBalancer s \<Longrightarrow> \<not> needsCleanup s \<Longrightarrow>
         P (EnsureLoadBalancer cn s epss lbId)"
    and fadd: "\<not> servicehelper_HasLBFinalizer s \<Longrightarrow> wantsLoadBalancer s \<Longrightarrow>
       P (PatchService s (s\<lparr>Finalizers := Finalizers s @ [servicehelper_LoadBalancerCleanupFinalizer]\<rparr>))"
    and frm: "needsCleanup s \<Longrightarrow>
       P (PatchService s (s\<lparr>Finalizers := removeString (Finalizers s) servicehelper_LoadBalancerCleanupFinalizer\<rparr>))"
    and ann: "\<And>a. DeletionTimestamp s = None \<Longrightarrow> Annotations s a \<noteq> None \<Longrightarrow>
       P (PatchService s (s\<lparr>Annotations := removeAnnotationKey (Annotations s) a\<rparr>))"
    and st: "\<And>n. \<not> LoadBalancerStatusEqual (StatusLoadBalancer s) n \<Longrightarrow>
       P (PatchService s (s\<lparr>StatusLoadBalancer := n\<rparr>))"
  shows "adds P c c1"
proof (cases "\<not> wantsLoadBalancer s \<or> needsCleanup s")
  case True
  obtain b d1 where s1: "syncDeleteBranch cl s c0 = (b, d1)"
    by (cases "syncDeleteBranch cl s c0") auto
  have a1: "adds P c d1"
    by (rule syncDeleteBranch_adds[OF s1 inv ev _ frm ann]) (use del True in auto)
  show ?thesis
  proof (cases b)
    case (Inl e)
    then show ?thesis
      using run True s1 a1 by (auto simp: syncLoadBalancerIfNeeded_def)
  next
    case (Inr new)
    obtain r2 d2 where s2: "syncTail cl s (Some (StatusLoadBalancer s)) new d1 = (r2, d2)"
      by (cases "syncTail cl s (Some (StatusLoadBalancer s)) new d1") auto
    have "adds P c d2"
      by (rule syncTail_adds[OF s2 a1 ann st])
    then show ?thesis
      using run True s1 s2 Inr by (auto simp: syncLoadBalancerIfNeeded_def)
  qed
next
  case False
  obtain b d1 where s1: "syncEnsureBranch cl s epss c0 = (b, d1)"
    by (cases "syncEnsureBranch cl s epss c0") auto
  have a1: "adds P c d1"
    by (rule syncEnsureBranch_adds[OF s1 inv ev _ _ fadd]) (use del ens False in auto)
  show ?thesis
  proof (cases b)
    case (Inl e)
    then show ?thesis
      using run False s1 a1 by (auto simp: syncLoadBalancerIfNeeded_def)
  next
    case (Inr new)
    obtain r2 d2 where s2: "syncTail cl s (Some (StatusLoadBalancer s)) new d1 = (r2, d2)"
      by (cases "syncTail cl s (Some (StatusLoadBalancer s)) new d1") auto
    have "adds P c d2"
      by (rule syncTail_adds[OF s2 a1 ann st])
    then show ?thesis
      using run False s1 s2 Inr by (auto simp: syncLoadBalancerIfNeeded_def)
  qed
qed


lemma processServiceCreateOrUpdate_adds:
  assumes run: "processServiceCreateOrUpdate cl s key epss c0 = (r, c1)"
    and ev: "\<And>t r. P (Event t r)"
    and stale: "\<And>cn cached lbId. cache c0 key = Some (Some cached) \<Longrightarrow> UID cached \<noteq> UID s \<Longrightarrow>
         P (EnsureLoadBalancerDeleted cn cached lbId)"
    and del: "\<And>cn lbId. lbId \<noteq> [] \<Longrightarrow>
         lbId = getStringFromServiceAnnotation s ServiceAnnotationLoadBalancerOldID [] \<or>
         lbId = getStringFromServiceAnnotation s ServiceAnnotationLoadBalancerID [] \<and>
         (\<not> wantsLoadBalancer s \<or> needsCleanup s) \<Longrightarrow>
         P (EnsureLoadBalancerDeleted cn s lbId)"
    and ens: "\<And>cn lbId. lbId \<noteq> [] \<Longrightarrow>
         lbId = getStringFromServiceAnnotation s ServiceAnnotationLoadBalancerID [] \<Longrightarrow>
         wantsLoadBalancer s \<Longrightarrow> \<not> needsCleanup s \<Longrightarrow>
         P (EnsureLoadBalancer cn s epss lbId)"
    and fadd: "\<not> servicehelper_HasLBFinalizer s \<Longrightarrow> wantsLoadBalancer s \<Longrightarrow>
       P (PatchService s (s\<lparr>Finalizers := Finalizers s @ [servicehelper_LoadBalancerCleanupFinalizer]\<rparr>))"
    and frm: "needsCleanup s \<Longrightarrow>
       P (PatchService s (s\<lparr>Finalizers := removeString (Finalizers s) servicehelper_LoadBalancerCleanupFinalizer\<rparr>))"
    and ann: "\<And>a. DeletionTimestamp s = None \<Longrightarrow> Annotations s a \<noteq> None \<Longrightarrow>
       P (PatchService s (s\<lparr>Annotations := removeAnnotationKey (Annotations s) a\<rparr>))"
    and st: "\<And>n. \<not> LoadBalancerStatusEqual (StatusLoadBalancer s) n \<Longrightarrow>
       P (PatchService s (s\<lparr>StatusLoadBalancer := n\<rparr>))"
  shows "adds P c0 c1"
proof -
  obtain cachedState d0 where g: "cache_getOrCreate key c0 = (cachedState, d0)"
    by (cases "cache_getOrCreate key c0") auto
  have a0: "adds P c0 d0"
    using g by (auto simp: cache_getOrCreate_def adds_def split: option.splits)
  have cs: "cachedState = Some cached \<Longrightarrow> cache c0 key = Some (Some cached)" for cached
    using g by (auto simp: cache_getOrCreate_def split: option.splits)
  define pre where "pre = (case cachedState of
                   None \<Rightarrow> (None, d0)
                 | Some cached \<Rightarrow>
                     if UID cached \<noteq> UID s then
                       (let lbID =
                          getStringFromServiceAnnotation cached ServiceAnnotationLoadBalancerID []
                        in case processLoadBalancerDelete cl cached key lbID d0 of
                          (Some err, c1) \<Rightarrow> (Some err, c1)
                        | (None, c1) \<Rightarrow>
                           (let oldLbID = getStringFromServiceAnnotation cached
                                  ServiceAnnotationLoadBalancerOldID []
                            in processLoadBalancerDelete cl cached key oldLbID c1))
                     else (None, d0))"
  obtain r2 d2 where p: "pre = (r2, d2)"
    by (cases pre) auto
  have a2: "adds P c0 d2"
  proof (cases cachedState)
    case None
    then show ?thesis using p a0 by (simp add: pre_def)
  next
    case (Some cached)
    show ?thesis
    proof (cases "UID cached \<noteq> UID s")
      case False
      then show ?thesis using p a0 Some by (simp add: pre_def)
    next
      case True
      have P1: "\<And>cn lbId. P (EnsureLoadBalancerDeleted cn cached lbId)"
        using stale[OF cs[OF Some] True] .
      obtain e1 x1 where q1: "processLoadBalancerDelete cl cached key
           (getStringFromServiceAnnotation cached ServiceAnnotationLoadBalancerID []) d0 = (e1, x1)"
        by (cases "processLoadBalancerDelete cl cached key
           (getStringFromServiceAnnotation cached ServiceAnnotationLoadBalancerID []) d0") auto
      have b1: "adds P c0 x1"
        using processLoadBalancerDelete_adds[OF q1 a0] P1 ev by simp
      obtain e2 x2 where q2: "processLoadBalancerDelete cl cached key
           (getStringFromServiceAnnotation cached ServiceAnnotationLoadBalancerOldID []) x1 = (e2, x2)"
        by (cases "processLoadBalancerDelete cl cached key
           (getStringFromServiceAnnotation cached ServiceAnnotationLoadBalancerOldID []) x1") auto
      have b2: "adds P c0 x2"
        using processLoadBalancerDelete_adds[OF q2 b1] P1 ev by simp
      show ?thesis
        using p Some True q1 q2 b1 b2
        by (auto simp: pre_def Let_def split: option.splits)
    qed
  qed
  define d3 where "d3 = d2\<lparr>cache := (cache d2)(key \<mapsto> Some s)\<rparr>"
  have a3: "adds P c0 d3"
    using a2 by (simp add: d3_def adds_def)
  obtain op e4 d4 where s4: "syncLoadBalancerIfNeeded cl s key epss d3 = ((op, e4), d4)"
    by (cases "syncLoadBalancerIfNeeded cl s key epss d3") auto
  have a4: "adds P c0 d4"
    by (rule syncLoadBalancerIfNeeded_adds[OF s4 a3 ev del ens fadd frm ann st])
  have a5: "adds P c0 (eventRecorder_Event EventTypeWarning ''SyncLoadBalancerFailed'' d4)"
    using a4 ev by (rule adds_event)
  have a6: "adds P c0 (cache_delete key d4)"
    using a4 by (simp add: cache_delete_def adds_def)
  have run': "(case pre of
                 (Some err, c2) \<Rightarrow> (Some err, c2)
               | (None, c2) \<Rightarrow>
                   (case syncLoadBalancerIfNeeded cl s key epss
                           (c2\<lparr>cache := (cache c2)(key \<mapsto> Some s)\<rparr>) of
                      ((op, Some err), c4) \<Rightarrow>
                        (Some err, eventRecorder_Event EventTypeWarning ''SyncLoadBalancerFailed'' c4)
                    | ((op, None), c4) \<Rightarrow>
                        if op = deleteLoadBalancer then (None, cache_delete key c4)
                        else (None, c4))) = (r, c1)"
    using run g unfolding processServiceCreateOrUpdate_def pre_def Let_def by simp
  show ?thesis
    using run' p s4 a2 a4 a5 a6
    by (auto simp: d3_def split: option.splits if_splits)
qed

lemma adds_newCalls: "adds P c c' \<Longrightarrow> list_all P (newCalls c c')"
  by (auto simp: adds_def newCalls_def)

lemma adds_filter:
  "adds P c c' \<Longrightarrow> (\<And>x. P x \<Longrightarrow> \<not> Q x) \<Longrightarrow> filter Q (calls c') = filter Q (calls c)"
  by (auto simp: adds_def list_all_iff filter_empty_conv)

subsection \<open>Finalizers of endpoint slices on the Ensure branch\<close>

text \<open>
  C1. The claim: on the Ensure branch the cleanup finalizer is added to every endpoint
  slice of the service before any provider call. The code does not do it:
  \<^verbatim>\<open>addEndpointSliceFinalizer\<close> returns before it reaches the patch. For the example
  service, which wants a load balancer, and its endpoint slice without the finalizer, the
  pass patches the service, calls the provider's ensure operation and patches the status;
  no call patches the endpoint slice.
\<close>

theorem C1_ensure_pass_trace:
  "calls (snd (syncLoadBalancerIfNeeded (exampleCluster [exampleSlice] []) exampleService
                 exampleKey [exampleSlice] exampleController)) =
     [PatchService exampleService
        (exampleService\<lparr>Finalizers := [servicehelper_LoadBalancerCleanupFinalizer]\<rparr>),
      EnsureLoadBalancer ''c1'' exampleService [exampleSlice] ''lb-1'',
      PatchService exampleService (exampleService\<lparr>StatusLoadBalancer := exampleStatus\<rparr>)]"
  by (simp add: example_defs constant_defs call_defs lifecycle_defs Let_def)

theorem C1_ensure_pass_patches_no_slice:
  "wantsLoadBalancer exampleService \<and> \<not> needsCleanup exampleService \<and>
   \<not> endpointSliceHelper_HasLBFinalizer exampleSlice \<and>
   list_ex is_provider_call
     (calls (snd (syncLoadBalancerIfNeeded (exampleCluster [exampleSlice] []) exampleService
                    exampleKey [exampleSlice] exampleController))) \<and>
   \<not> list_ex is_PatchEndpointSlice
     (calls (snd (syncLoadBalancerIfNeeded (exampleCluster [exampleSlice] []) exampleService
                    exampleKey [exampleSlice] exampleController)))"
  unfolding C1_ensure_pass_trace
  by (simp add: example_defs constant_defs lifecycle_defs)

subsection \<open>Services that want no load balancer and have no finalizer\<close>

text \<open>
  C2, as the claim states it: a pass over a service that does not want a load balancer
  and carries no finalizer makes no provider call. It fails on the code: such a service
  takes the Delete branch, which deletes the load balancers named by its identifier
  annotations. The ClusterIP service that still carries the current identifier makes the
  pass call the provider's delete operation for it.
\<close>

theorem C2_counterexample:
  "\<not> wantsLoadBalancer clusterIPService \<and>
   \<not> servicehelper_HasLBFinalizer clusterIPService \<and>
   filter is_provider_call
     (calls (snd (processServiceCreateOrUpdate (exampleCluster [] []) clusterIPService
                    exampleKey [] exampleController))) =
     [EnsureLoadBalancerDeleted ''c1'' clusterIPService ''lb-1'']"
  by (simp add: example_defs constant_defs call_defs lifecycle_defs Let_def)

text \<open>
  C2, amended: if the service does not want a load balancer, carries no finalizer and has
  neither identifier annotation set to a non-empty value, and the cache holds no service of
  another UID under its key, then the pass makes no provider call: the provider calls of the
  trace are those made before the pass.
\<close>

theorem C2_no_provider_call:
  assumes "\<not> wantsLoadBalancer s"
    and "\<not> servicehelper_HasLBFinalizer s"
    and "getStringFromServiceAnnotation s ServiceAnnotationLoadBalancerID [] = []"
    and "getStringFromServiceAnnotation s ServiceAnnotationLoadBalancerOldID [] = []"
    and "\<forall>cached. cache c key = Some (Some cached) \<longrightarrow> UID cached = UID s"
  shows "filter is_provider_call (calls (snd (processServiceCreateOrUpdate cl s key epss c))) =
         filter is_provider_call (calls c)"
proof -
  obtain r c1 where run: "processServiceCreateOrUpdate cl s key epss c = (r, c1)"
    by (cases "processServiceCreateOrUpdate cl s key epss c") auto
  have "adds (\<lambda>x. \<not> is_provider_call x) c c1"
    by (rule processServiceCreateOrUpdate_adds[OF run])
      (use assms in \<open>auto simp: needsCleanup_def\<close>)
  then have "filter is_provider_call (calls c1) = filter is_provider_call (calls c)"
    by (rule adds_filter) simp
  then show ?thesis
    using run by simp
qed

theorem C2_no_provider_call_witness:
  "\<not> wantsLoadBalancer bareClusterIPService \<and>
   \<not> servicehelper_HasLBFinalizer bareClusterIPService \<and>
   cache (cachedController bareClusterIPService) exampleKey = Some (Some bareClusterIPService) \<and>
   filter is_provider_call
     (calls (snd (processServiceCreateOrUpdate (exampleCluster [] []) bareClusterIPService
                    exampleKey [] (cachedController bareClusterIPService)))) = []"
  using C2_no_provider_call [of bareClusterIPService "cachedController bareClusterIPService"
      exampleKey "exampleCluster [] []" "[]"]
  by (simp add: example_defs constant_defs lifecycle_defs)

subsection \<open>The node predicates of a service with the Local traffic policy\<close>

text \<open>
  C3. The claim: with the stable-node-set gate off, a service whose external traffic policy
  is Local gets the reduced predicate set, which drops the readiness predicate, so that a
  node that is not ready stays eligible. In the code \<^verbatim>\<open>etpLocalNodePredicates\<close> lists
  \<^verbatim>\<open>nodeReadyPredicate\<close> too: the set chosen for the Local service rejects the node that
  is not ready (which is neither excluded nor tainted), and filtering drops it.
\<close>

theorem C3_local_policy_keeps_readiness:
  "ExternalTrafficPolicy localService = ServiceExternalTrafficPolicyLocal \<and>
   \<not> StableLoadBalancerNodeSet (exampleCluster [] []) \<and>
   nodeIncludedPredicate notReadyNode \<and> nodeUnTaintedPredicate notReadyNode \<and>
   \<not> nodeReadyPredicate notReadyNode \<and>
   \<not> respectsPredicates notReadyNode
       (getNodePredicatesForService (exampleCluster [] []) localService) \<and>
   filterWithPredicates [nodeA, notReadyNode]
       (getNodePredicatesForService (exampleCluster [] []) localService) = [nodeA]"
  by (simp add: example_defs constant_defs getNodePredicatesForService_def
      etpLocalNodePredicates_def nodeIncludedPredicate_def nodeUnTaintedPredicate_def
      nodeReadyPredicate_def filterWithPredicates_def)

theorem C3_not_ready_node_not_eligible:
  "filterWithPredicates [notReadyNode]
     (getNodePredicatesForService (exampleCluster [] []) localService) = []"
  using C3_local_policy_keeps_readiness
  by (simp add: filterWithPredicates_def)


subsection \<open>Node sets that are sufficiently equal\<close>

lemma update_fresh_key:
  "k \<notin> fst ` set al \<Longrightarrow> AList.update k v al = al @ [(k, v)]"
  by (induction al) auto

lemma foldl_update_distinct:
  "distinct (map fst acc @ map node_Name ns) \<Longrightarrow>
   foldl (\<lambda>m n. AList.update (node_Name n) (node_ProviderID n) m) acc ns =
     acc @ map namedProviderID ns"
proof (induction ns arbitrary: acc)
  case Nil
  then show ?case by simp
next
  case (Cons n ns)
  have fresh: "node_Name n \<notin> fst ` set acc"
    using Cons.prems by auto
  have "distinct (map fst (acc @ [(node_Name n, node_ProviderID n)]) @ map node_Name ns)"
    using Cons.prems by auto
  then show ?case
    using Cons.IH[of "acc @ [(node_Name n, node_ProviderID n)]"] fresh
    by (simp add: update_fresh_key namedProviderID_def)
qed

lemma distillMap_distinct:
  "distinct (map node_Name ns) \<Longrightarrow> distillMap ns = map namedProviderID ns"
  using foldl_update_distinct[of "[]" ns] by (simp add: distillMap_def)

lemma distinct_namedProviderID:
  "distinct (map node_Name ns) \<Longrightarrow> distinct (map namedProviderID ns)"
proof -
  assume d: "distinct (map node_Name ns)"
  have "map node_Name ns = map fst (map namedProviderID ns)"
    by (simp add: namedProviderID_def comp_def)
  with d show ?thesis
    by (metis distinct_map)
qed

lemma nodesSufficientlyEqual_by_name:
  assumes "distinct (map node_Name old)" and "distinct (map node_Name new)"
    and "set (map namedProviderID old) = set (map namedProviderID new)"
  shows "nodesSufficientlyEqual old new"
proof -
  have "length (map namedProviderID old) = length (map namedProviderID new)"
    using assms distinct_namedProviderID distinct_card by metis
  then show ?thesis
    using assms by (simp add: nodesSufficientlyEqual_def distillMap_distinct)
qed

text \<open>
  The association list built by \<open>distillMap\<close> has one entry for each key, so that two
  of them have the same entries exactly when they are the same map.
\<close>

lemma foldl_update_keys_distinct:
  "distinct (map fst acc) \<Longrightarrow>
   distinct (map fst (foldl (\<lambda>m n. AList.update (node_Name n) (node_ProviderID n) m) acc ns))"
  by (induction ns arbitrary: acc) (simp_all add: distinct_update)

lemma distillMap_as_map:
  "(set (distillMap old) = set (distillMap new)) =
   (map_of (distillMap old) = map_of (distillMap new))"
  using map_of_inject_set[of "distillMap old" "distillMap new"]
  by (simp add: distillMap_def foldl_update_keys_distinct)

text \<open>
  C4, as the claim states it: if the old and the new filtered node sets have equal
  projections on the provider identifier, the resync of a service makes no update-backends
  call, whatever else differs, the name for one. It fails on the code: the comparison is
  between maps from node names to provider identifiers. With node A last synced and node B
  listed (both ready, same provider identifier, another name) the provider is called.
\<close>

theorem C4_counterexample:
  "filterWithPredicates [nodeA] (getNodePredicatesForService (exampleCluster [] [nodeB])
      exampleService) = [nodeA] \<and>
   filterWithPredicates [nodeB] (getNodePredicatesForService (exampleCluster [] [nodeB])
      exampleService) = [nodeB] \<and>
   map node_ProviderID [nodeA] = map node_ProviderID [nodeB] \<and>
   filter is_UpdateLoadBalancer
     (calls (snd (nodeSyncService (exampleCluster [] [nodeB]) (Some exampleService)
                    (exampleController\<lparr>lastSyncedNodes := [''default/web'' \<mapsto> [nodeA]]\<rparr>)))) =
     [UpdateLoadBalancer ''c1'' exampleService [nodeB]]"
  by (simp add: example_defs constant_defs call_defs getNodePredicatesForService_def
      allNodePredicates_def nodeIncludedPredicate_def nodeUnTaintedPredicate_def
      nodeReadyPredicate_def filterWithPredicates_def nodeSyncService_def
      wantsLoadBalancer_def listWithPredicates_def getLastSyncedNodes_def
      storeLastSyncedNodes_def MetaNamespaceKeyFunc_def nodesSufficientlyEqual_def
      distillMap_def lockedUpdateLoadBalancerHosts_def Let_def)

text \<open>
  C4, amended: the projection is keyed by the node name. If the old and the new filtered
  node sets have pairwise distinct node names and the same set of pairs of a node name and
  its provider identifier, the resync of the service makes no update-backends call,
  whatever the other fields of the nodes are (labels, taints, conditions, deletion
  timestamp).
\<close>

theorem C4_no_update_when_names_and_ids_agree:
  assumes "nodeLister_List cl (calls c) = Inr listed"
    and "new = filterWithPredicates listed (getNodePredicatesForService cl s)"
    and "old = filterWithPredicates (getLastSyncedNodes s c) (getNodePredicatesForService cl s)"
    and "distinct (map node_Name old)" and "distinct (map node_Name new)"
    and "set (map namedProviderID old) = set (map namedProviderID new)"
  shows "filter is_UpdateLoadBalancer (calls (snd (nodeSyncService cl (Some s) c))) =
         filter is_UpdateLoadBalancer (calls c)"
proof -
  have "nodesSufficientlyEqual old new"
    using assms(4-6) by (rule nodesSufficientlyEqual_by_name)
  then show ?thesis
    using assms(1-3)
    by (simp add: nodeSyncService_def listWithPredicates_def filterWithPredicates_def
        storeLastSyncedNodes_def Let_def)
qed

theorem C4_no_update_witness:
  "filterWithPredicates [relabelledNodeA]
      (getNodePredicatesForService (exampleCluster [] [relabelledNodeA]) exampleService) =
     [relabelledNodeA] \<and>
   node_Labels relabelledNodeA \<noteq> node_Labels nodeA \<and>
   filter is_UpdateLoadBalancer
     (calls (snd (nodeSyncService (exampleCluster [] [relabelledNodeA]) (Some exampleService)
                    (exampleController\<lparr>lastSyncedNodes := [''default/web'' \<mapsto> [nodeA]]\<rparr>)))) = []"
proof -
  have l: "node_Labels relabelledNodeA \<noteq> node_Labels nodeA"
    by (simp add: example_defs fun_eq_iff exI[of _ "''topology.kubernetes.io/zone''"])
  have f: "filterWithPredicates [relabelledNodeA]
      (getNodePredicatesForService (exampleCluster [] [relabelledNodeA]) exampleService) =
     [relabelledNodeA]"
    by (simp add: example_defs constant_defs getNodePredicatesForService_def
        allNodePredicates_def nodeIncludedPredicate_def nodeUnTaintedPredicate_def
        nodeReadyPredicate_def filterWithPredicates_def)
  have g: "filterWithPredicates [nodeA]
      (getNodePredicatesForService (exampleCluster [] [relabelledNodeA]) exampleService) =
     [nodeA]"
    by (simp add: example_defs constant_defs getNodePredicatesForService_def
        allNodePredicates_def nodeIncludedPredicate_def nodeUnTaintedPredicate_def
        nodeReadyPredicate_def filterWithPredicates_def)
  have t: "getLastSyncedNodes exampleService
              (exampleController\<lparr>lastSyncedNodes := [''default/web'' \<mapsto> [nodeA]]\<rparr>) = [nodeA]"
    by (simp add: getLastSyncedNodes_def MetaNamespaceKeyFunc_def exampleService_def
        exampleController_def)
  have h1: "nodeLister_List (exampleCluster [] [relabelledNodeA])
              (calls (exampleController\<lparr>lastSyncedNodes := [''default/web'' \<mapsto> [nodeA]]\<rparr>)) =
            Inr [relabelledNodeA]"
    by (simp add: exampleCluster_def)
  have h2: "[relabelledNodeA] = filterWithPredicates [relabelledNodeA]
              (getNodePredicatesForService (exampleCluster [] [relabelledNodeA]) exampleService)"
    using f by simp
  have h3: "[nodeA] = filterWithPredicates
              (getLastSyncedNodes exampleService
                 (exampleController\<lparr>lastSyncedNodes := [''default/web'' \<mapsto> [nodeA]]\<rparr>))
              (getNodePredicatesForService (exampleCluster [] [relabelledNodeA]) exampleService)"
    using g t by simp
  have h4: "distinct (map node_Name [nodeA])" and h5: "distinct (map node_Name [relabelledNodeA])"
    by simp_all
  have h6: "set (map namedProviderID [nodeA]) = set (map namedProviderID [relabelledNodeA])"
    by (simp add: namedProviderID_def relabelledNodeA_def nodeA_def)
  have "filter is_UpdateLoadBalancer
     (calls (snd (nodeSyncService (exampleCluster [] [relabelledNodeA]) (Some exampleService)
                    (exampleController\<lparr>lastSyncedNodes := [''default/web'' \<mapsto> [nodeA]]\<rparr>)))) =
     filter is_UpdateLoadBalancer
       (calls (exampleController\<lparr>lastSyncedNodes := [''default/web'' \<mapsto> [nodeA]]\<rparr>))"
    by (rule C4_no_update_when_names_and_ids_agree [OF h1 h2 h3 h4 h5 h6])
  then show ?thesis
    using l f by (simp add: exampleController_def)
qed

subsection \<open>Finalizers of endpoint slices that need cleanup\<close>

text \<open>
  C5. The claim: a pass that reaches the statements after the two branches removes the
  cleanup finalizer from every endpoint slice of the service that has the finalizer and a
  deletion timestamp. The code does not do it: \<^verbatim>\<open>removeEndpointSliceFinalizer\<close> returns
  at once when the slice has the finalizer, and \<^verbatim>\<open>epsNeedsCleanup\<close> holds only of
  slices that have it. For the example service and a slice that needs cleanup the pass
  succeeds on the Ensure branch, and no call patches the slice.
\<close>

theorem C5_cleanup_pass_trace:
  "epsNeedsCleanup deletingSlice \<and>
   removeEndpointSliceFinalizer (exampleCluster [deletingSlice] []) deletingSlice
     exampleController = (None, exampleController) \<and>
   fst (syncLoadBalancerIfNeeded (exampleCluster [deletingSlice] []) exampleService
          exampleKey [deletingSlice] exampleController) = (ensureLoadBalancerOp, None) \<and>
   calls (snd (syncLoadBalancerIfNeeded (exampleCluster [deletingSlice] []) exampleService
                 exampleKey [deletingSlice] exampleController)) =
     [PatchService exampleService
        (exampleService\<lparr>Finalizers := [servicehelper_LoadBalancerCleanupFinalizer]\<rparr>),
      EnsureLoadBalancer ''c1'' exampleService [deletingSlice] ''lb-1'',
      PatchService exampleService (exampleService\<lparr>StatusLoadBalancer := exampleStatus\<rparr>)]"
  by (simp add: example_defs constant_defs call_defs lifecycle_defs Let_def)

theorem C5_cleanup_pass_patches_no_slice:
  "\<not> list_ex is_PatchEndpointSlice
     (calls (snd (syncLoadBalancerIfNeeded (exampleCluster [deletingSlice] []) exampleService
                    exampleKey [deletingSlice] exampleController)))"
  using C5_cleanup_pass_trace
  by simp

subsection \<open>The deletion path\<close>

text \<open>
  C6, as the claim states it: with a cache entry, the provider's delete is invoked for the
  current identifier annotation if it is set, and for the old one if it is set. It fails on
  the code: \<^verbatim>\<open>processServiceDeletion\<close> calls the delete for both annotations whether
  they are set or not. For a cached service without annotations the provider is called
  twice, with the empty identifier.
\<close>

theorem C6_counterexample:
  "Annotations plainService ServiceAnnotationLoadBalancerID = None \<and>
   Annotations plainService ServiceAnnotationLoadBalancerOldID = None \<and>
   calls (snd (processServiceDeletion (exampleCluster [] []) exampleKey
                 (cachedController plainService))) =
     [EnsureLoadBalancerDeleted ''c1'' plainService [],
      EnsureLoadBalancerDeleted ''c1'' plainService []]"
  by (simp add: example_defs constant_defs call_defs lifecycle_defs Let_def)

text \<open>
  C6, amended. Without a cache entry for the key the pass returns success and changes
  nothing (no provider call). With a cached service, the provider's delete is invoked with
  the value of the current identifier annotation (the empty string when it is not set);
  if the provider answers with an error that is not tolerated (its text does not contain
  \<^verbatim>\<open>not found\<close>), the pass emits a warning event and returns that error, with the cache
  entry kept and no second delete. Otherwise the delete is invoked with the value of the old
  identifier annotation (the empty string when it is not set), and an error that is not
  tolerated is handled in the same way. When both answers are tolerated the pass returns
  success and the cache entry is removed.
\<close>

theorem C6_deletion_path:
  "(cache c key = None \<longrightarrow> processServiceDeletion cl key c = (None, c)) \<and>
   (cache c key = Some (Some state) \<longrightarrow>
      (let lbID = getStringFromServiceAnnotation state ServiceAnnotationLoadBalancerID [];
           oldLbID = getStringFromServiceAnnotation state ServiceAnnotationLoadBalancerOldID [];
           first = EnsureLoadBalancerDeleted (clusterName c) state lbID;
           second = EnsureLoadBalancerDeleted (clusterName c) state oldLbID;
           failed = Event EventTypeWarning ''DeleteLoadBalancerFailed'';
           r1 = balancer_EnsureLoadBalancerDeleted cl (calls c) state lbID;
           r2 = balancer_EnsureLoadBalancerDeleted cl (calls c @ [first]) state oldLbID
       in (\<not> tolerated r1 \<longrightarrow>
             processServiceDeletion cl key c = (r1, c\<lparr>calls := calls c @ [first, failed]\<rparr>)) \<and>
          (tolerated r1 \<and> \<not> tolerated r2 \<longrightarrow>
             processServiceDeletion cl key c =
               (r2, c\<lparr>calls := calls c @ [first, second, failed]\<rparr>)) \<and>
          (tolerated r1 \<and> tolerated r2 \<longrightarrow>
             processServiceDeletion cl key c =
               (None, c\<lparr>cache := (cache c)(key := None),
                          calls := calls c @ [first, second]\<rparr>))))"
  by (auto simp: processServiceDeletion_def processLoadBalancerDelete_def tolerated_def
      EnsureLoadBalancerDeleted_call_def record_call_def eventRecorder_Event_def
      cache_delete_def Let_def split: option.splits)

theorem C6_deletion_path_witness:
  "processServiceDeletion (exampleCluster [] []) exampleKey exampleController =
     (None, exampleController) \<and>
   tolerated (Some (ErrorString ''load balancer lb-1 not found'')) \<and>
   processServiceDeletion (failingDeleteCluster (ErrorString ''load balancer lb-1 not found''))
       exampleKey (cachedController exampleService) =
     (None, exampleController
        \<lparr>calls := [EnsureLoadBalancerDeleted ''c1'' exampleService ''lb-1'',
                   EnsureLoadBalancerDeleted ''c1'' exampleService []]\<rparr>) \<and>
   \<not> tolerated (Some (ErrorString ''request timed out'')) \<and>
   processServiceDeletion (failingDeleteCluster (ErrorString ''request timed out''))
       exampleKey (cachedController exampleService) =
     (Some (ErrorString ''request timed out''),
      (cachedController exampleService)
        \<lparr>calls := [EnsureLoadBalancerDeleted ''c1'' exampleService ''lb-1'',
                   Event EventTypeWarning ''DeleteLoadBalancerFailed'']\<rparr>)"
proof -
  have none: "cache exampleController exampleKey = None"
    by (simp add: exampleController_def)
  have some: "cache (cachedController exampleService) exampleKey = Some (Some exampleService)"
    by (simp add: cachedController_def exampleController_def)
  have t1: "tolerated (Some (ErrorString ''load balancer lb-1 not found''))"
    by (simp add: tolerated_def)
  have t2: "\<not> tolerated (Some (ErrorString ''request timed out''))"
    by (simp add: tolerated_def)
  have a: "processServiceDeletion (exampleCluster [] []) exampleKey exampleController =
     (None, exampleController)"
    using C6_deletion_path [of exampleController exampleKey "exampleCluster [] []"] none
    by simp
  have b: "processServiceDeletion (failingDeleteCluster (ErrorString ''load balancer lb-1 not found''))
       exampleKey (cachedController exampleService) =
     (None, exampleController
        \<lparr>calls := [EnsureLoadBalancerDeleted ''c1'' exampleService ''lb-1'',
                   EnsureLoadBalancerDeleted ''c1'' exampleService []]\<rparr>)"
    using C6_deletion_path [of "cachedController exampleService" exampleKey
        "failingDeleteCluster (ErrorString ''load balancer lb-1 not found'')" exampleService]
      some t1
    by (simp add: Let_def failingDeleteCluster_def exampleCluster_def cachedController_def
        exampleController_def exampleService_def getStringFromServiceAnnotation_def
        constant_defs)
  have c: "processServiceDeletion (failingDeleteCluster (ErrorString ''request timed out''))
       exampleKey (cachedController exampleService) =
     (Some (ErrorString ''request timed out''),
      (cachedController exampleService)
        \<lparr>calls := [EnsureLoadBalancerDeleted ''c1'' exampleService ''lb-1'',
                   Event EventTypeWarning ''DeleteLoadBalancerFailed'']\<rparr>)"
    using C6_deletion_path [of "cachedController exampleService" exampleKey
        "failingDeleteCluster (ErrorString ''request timed out'')" exampleService]
      some t2
    by (simp add: Let_def failingDeleteCluster_def exampleCluster_def cachedController_def
        exampleController_def exampleService_def getStringFromServiceAnnotation_def
        constant_defs)
  show ?thesis
    using a b c t1 t2 by simp
qed

subsection \<open>The tracker of the node sets last synced\<close>

lemma lockedUpdateLoadBalancerHosts_tracker:
  "lastSyncedNodes (snd (lockedUpdateLoadBalancerHosts cl s hosts c)) = lastSyncedNodes c"
  by (simp add: lockedUpdateLoadBalancerHosts_def call_defs split: option.splits prod.splits)

text \<open>
  C7. A resync attempt of a service computes the new eligible node set when the service
  wants a load balancer and the node lister answers. Then, after \<^verbatim>\<open>nodeSyncService\<close>,
  the tracker holds under the key of the service the node set just computed, and is
  unchanged under every other key. This holds for every cluster: whether the update of the
  backends is skipped, succeeds or fails.
\<close>

theorem C7_tracker_replaced:
  assumes "wantsLoadBalancer s" and "nodeLister_List cl (calls c) = Inr listed"
  shows "lastSyncedNodes (snd (nodeSyncService cl (Some s) c)) =
         (lastSyncedNodes c)(MetaNamespaceKeyFunc s \<mapsto>
            filterWithPredicates listed (getNodePredicatesForService cl s))"
proof -
  define new where "new = filterWithPredicates listed (getNodePredicatesForService cl s)"
  define c1 where "c1 = storeLastSyncedNodes s new c"
  have stored: "lastSyncedNodes c1 = (lastSyncedNodes c)(MetaNamespaceKeyFunc s \<mapsto> new)"
    by (simp add: c1_def storeLastSyncedNodes_def)
  have "lastSyncedNodes (snd (nodeSyncService cl (Some s) c)) = lastSyncedNodes c1"
    using assms lockedUpdateLoadBalancerHosts_tracker[of cl s new c1]
    by (auto simp: nodeSyncService_def listWithPredicates_def Let_def new_def c1_def
        filterWithPredicates_def split: prod.splits option.splits)
  then show ?thesis
    using stored by (simp add: new_def)
qed

theorem C7_tracker_replaced_witness:
  "nodeSyncService (failingUpdateCluster [nodeA, notReadyNode]) (Some exampleService)
       exampleController =
     (True, exampleController
        \<lparr>lastSyncedNodes := [''default/web'' \<mapsto> [nodeA]],
          calls := [UpdateLoadBalancer ''c1'' exampleService [nodeA],
                    GetLoadBalancer ''c1'' exampleService,
                    Event EventTypeWarning ''UpdateLoadBalancerFailed'']\<rparr>) \<and>
   lastSyncedNodes (snd (nodeSyncService (failingUpdateCluster [nodeA, notReadyNode])
                           (Some exampleService) exampleController)) ''default/web'' =
     Some [nodeA] \<and>
   lastSyncedNodes (snd (nodeSyncService (exampleCluster [] [nodeA, notReadyNode])
                           (Some exampleService) exampleController)) ''default/web'' =
     Some [nodeA] \<and>
   lastSyncedNodes (snd (nodeSyncService (exampleCluster [] [])
                           (Some exampleService) exampleController)) ''default/web'' =
     Some []"
proof -
  have w: "wantsLoadBalancer exampleService"
    by (simp add: wantsLoadBalancer_def exampleService_def constant_defs)
  have k: "MetaNamespaceKeyFunc exampleService = ''default/web''"
    by (simp add: MetaNamespaceKeyFunc_def exampleService_def)
  have f: "filterWithPredicates [nodeA, notReadyNode]
             (getNodePredicatesForService cl exampleService) = [nodeA]"
    if "\<not> StableLoadBalancerNodeSet cl" for cl
    using that
    by (simp add: example_defs constant_defs getNodePredicatesForService_def
        allNodePredicates_def nodeIncludedPredicate_def nodeUnTaintedPredicate_def
        nodeReadyPredicate_def filterWithPredicates_def)
  have a: "lastSyncedNodes (snd (nodeSyncService (failingUpdateCluster [nodeA, notReadyNode])
                           (Some exampleService) exampleController)) ''default/web'' =
     Some [nodeA]"
    using C7_tracker_replaced [of exampleService "failingUpdateCluster [nodeA, notReadyNode]"
        exampleController "[nodeA, notReadyNode]"] w k
      f [of "failingUpdateCluster [nodeA, notReadyNode]"]
    by (simp add: failingUpdateCluster_def exampleCluster_def)
  have b: "lastSyncedNodes (snd (nodeSyncService (exampleCluster [] [nodeA, notReadyNode])
                           (Some exampleService) exampleController)) ''default/web'' =
     Some [nodeA]"
    using C7_tracker_replaced [of exampleService "exampleCluster [] [nodeA, notReadyNode]"
        exampleController "[nodeA, notReadyNode]"] w k
      f [of "exampleCluster [] [nodeA, notReadyNode]"]
    by (simp add: exampleCluster_def)
  have c: "lastSyncedNodes (snd (nodeSyncService (exampleCluster [] [])
                           (Some exampleService) exampleController)) ''default/web'' =
     Some []"
    using C7_tracker_replaced [of exampleService "exampleCluster [] []"
        exampleController "[]"] w k
    by (simp add: exampleCluster_def filterWithPredicates_def)
  have d: "nodeSyncService (failingUpdateCluster [nodeA, notReadyNode]) (Some exampleService)
       exampleController =
     (True, exampleController
        \<lparr>lastSyncedNodes := [''default/web'' \<mapsto> [nodeA]],
          calls := [UpdateLoadBalancer ''c1'' exampleService [nodeA],
                    GetLoadBalancer ''c1'' exampleService,
                    Event EventTypeWarning ''UpdateLoadBalancerFailed'']\<rparr>)"
    using w k f [of "failingUpdateCluster [nodeA, notReadyNode]"]
    by (simp add: nodeSyncService_def listWithPredicates_def getLastSyncedNodes_def
        storeLastSyncedNodes_def nodesSufficientlyEqual_def distillMap_def
        lockedUpdateLoadBalancerHosts_def call_defs failingUpdateCluster_def
        exampleCluster_def exampleController_def filterWithPredicates_def nodeA_def Let_def)
  show ?thesis
    using a b c d by simp
qed

subsection \<open>Retries of the service worker\<close>

lemma backoff_bounds:
  "minRetryDelay \<le> (if minRetryDelay * 2 ^ n > maxRetryDelay then maxRetryDelay
                      else minRetryDelay * 2 ^ n) \<and>
   (if minRetryDelay * 2 ^ n > maxRetryDelay then maxRetryDelay
    else minRetryDelay * 2 ^ n) \<le> maxRetryDelay"
proof -
  have "(1::int) \<le> 2 ^ n"
    by simp
  then have "minRetryDelay * 1 \<le> minRetryDelay * 2 ^ n"
    by (intro mult_left_mono) (simp_all add: minRetryDelay_def Second_def)
  then show ?thesis
    by (simp add: minRetryDelay_def maxRetryDelay_def Second_def)
qed

text \<open>
  C8. Let the worker take the key from a queue that is not shutting down and whose
  limiter has the two delays of the controller. If the handler succeeds, the failure count
  of the key is reset and nothing is scheduled. If it returns an error that carries a
  retry-after duration (taken positive), the key is scheduled after exactly that duration
  and no failure count changes. If it returns any other error, the failure count of the
  key grows by one and the key is scheduled after the base delay doubled for every earlier
  failure, capped by the maximal delay: between 5 and 300 seconds.
\<close>

theorem C8_retry_policy:
  assumes "queue_Get q = Item key q1" and "\<not> shuttingDown q"
    and "baseDelay q = minRetryDelay" and "maxDelay q = maxRetryDelay"
    and "syncService cl key c = (r, c1)"
  shows "\<exists>q'. processNextServiceItem cl (q, c) = Some (True, q', c1) \<and>
     (r = None \<longrightarrow> failures q' = (failures q)(key := 0) \<and> waitingForAdd q' = waitingForAdd q) \<and>
     (\<forall>err d. r = Some err \<and> asRetryError err = Some d \<and> 0 < d \<longrightarrow>
        failures q' = failures q \<and> waitingForAdd q' = waitingForAdd q @ [(key, d)]) \<and>
     (\<forall>err. r = Some err \<and> asRetryError err = None \<longrightarrow>
        failures q' = (failures q)(key := failures q key + 1) \<and>
        (\<exists>d. waitingForAdd q' = waitingForAdd q @ [(key, d)] \<and>
             d = min maxRetryDelay (minRetryDelay * 2 ^ failures q key) \<and>
             5 * Second \<le> d \<and> d \<le> 300 * Second))"
proof -
  have q1: "q1 = q\<lparr>queue := tl (queue q), processing := insert key (processing q),
                    dirty := dirty q - {key}\<rparr>"
    using assms(1) by (auto simp: queue_Get_def split: list.splits if_splits)
  have b: "5 * Second \<le> min maxRetryDelay (minRetryDelay * 2 ^ failures q key) \<and>
           min maxRetryDelay (minRetryDelay * 2 ^ failures q key) \<le> 300 * Second"
    using backoff_bounds[of "failures q key"]
    by (simp add: min_def minRetryDelay_def maxRetryDelay_def split: if_splits)
  show ?thesis
  proof (cases r)
    case None
    then show ?thesis
      using assms q1
      by (simp add: processNextServiceItem_def queue_Done_def queue_Forget_def Let_def)
  next
    case (Some err)
    show ?thesis
    proof (cases "asRetryError err")
      case (Some d)
      then show ?thesis
        using assms q1 \<open>r = Some err\<close>
        by (simp add: processNextServiceItem_def queue_Done_def queue_AddAfter_def
            queue_Add_def Let_def)
    next
      case None
      then show ?thesis
        using assms q1 \<open>r = Some err\<close> b
        by (simp add: processNextServiceItem_def queue_Done_def queue_AddAfter_def
            queue_AddRateLimited_def rateLimiter_When_def queue_Add_def Let_def min_def
            minRetryDelay_def maxRetryDelay_def Second_def)
    qed
  qed
qed
lemma exampleQueue_Get:
  "queue_Get (exampleQueue\<lparr>failures := f\<rparr>) =
     Item exampleKey (New_serviceQueue\<lparr>processing := {exampleKey}, failures := f\<rparr>)"
  by (simp add: exampleQueue_def New_serviceQueue_def NewNamedRateLimitingQueue_def
      queue_Add_def queue_Get_def Let_def)

lemma exampleQueue_limiter:
  "\<not> shuttingDown (exampleQueue\<lparr>failures := f\<rparr>) \<and>
   baseDelay (exampleQueue\<lparr>failures := f\<rparr>) = minRetryDelay \<and>
   maxDelay (exampleQueue\<lparr>failures := f\<rparr>) = maxRetryDelay \<and>
   waitingForAdd (exampleQueue\<lparr>failures := f\<rparr>) = []"
  by (simp add: exampleQueue_def New_serviceQueue_def NewNamedRateLimitingQueue_def
      queue_Add_def Let_def)

lemma syncService_deleted_example:
  "cache c exampleKey = Some (Some exampleService) \<Longrightarrow> calls c = [] \<Longrightarrow>
   fst (syncService (failingDeleteCluster err) exampleKey c) =
     (if Contains (Error err) ''not found'' then None else Some err)"
  by (simp add: syncService_def SplitMetaNamespaceKey_def exampleKey_def
      failingDeleteCluster_def exampleCluster_def processServiceDeletion_def
      processLoadBalancerDelete_def call_defs cache_delete_def Let_def
      split: option.splits)

theorem C8_retry_policy_witness:
  "map_option (\<lambda>(again, q', c'). (again, failures q' exampleKey, waitingForAdd q'))
     (processNextServiceItem (exampleCluster [] [])
        (exampleQueue\<lparr>failures := (\<lambda>item. 4)\<rparr>, exampleController)) =
     Some (True, 0, []) \<and>
   map_option (\<lambda>(again, q', c'). (again, failures q' exampleKey, waitingForAdd q'))
     (processNextServiceItem (failingDeleteCluster (RetryError ''provider busy'' (7 * Second)))
        (exampleQueue\<lparr>failures := (\<lambda>item. 4)\<rparr>, cachedController exampleService)) =
     Some (True, 4, [(exampleKey, 7 * Second)]) \<and>
   map_option (\<lambda>(again, q', c'). (again, failures q' exampleKey, waitingForAdd q'))
     (processNextServiceItem (failingDeleteCluster (ErrorString ''request timed out''))
        (exampleQueue\<lparr>failures := (\<lambda>item. 3)\<rparr>, cachedController exampleService)) =
     Some (True, 4, [(exampleKey, 40 * Second)]) \<and>
   map_option (\<lambda>(again, q', c'). (again, failures q' exampleKey, waitingForAdd q'))
     (processNextServiceItem (failingDeleteCluster (ErrorString ''request timed out''))
        (exampleQueue\<lparr>failures := (\<lambda>item. 9)\<rparr>, cachedController exampleService)) =
     Some (True, 10, [(exampleKey, 300 * Second)])"
proof -
  have cached: "cache (cachedController exampleService) exampleKey = Some (Some exampleService)"
    "calls (cachedController exampleService) = []"
    by (simp_all add: cachedController_def exampleController_def)
  have ok: "fst (syncService (exampleCluster [] []) exampleKey exampleController) = None"
    by (simp add: syncService_def SplitMetaNamespaceKey_def exampleKey_def exampleCluster_def
        exampleController_def processServiceDeletion_def)
  have busy: "fst (syncService (failingDeleteCluster (RetryError ''provider busy'' (7 * Second)))
                exampleKey (cachedController exampleService)) =
              Some (RetryError ''provider busy'' (7 * Second))"
    using syncService_deleted_example[OF cached] by simp
  have timeout: "fst (syncService (failingDeleteCluster (ErrorString ''request timed out''))
                exampleKey (cachedController exampleService)) =
              Some (ErrorString ''request timed out'')"
    using syncService_deleted_example[OF cached] by simp
  have a: "map_option (\<lambda>(again, q', c'). (again, failures q' exampleKey, waitingForAdd q'))
     (processNextServiceItem (exampleCluster [] [])
        (exampleQueue\<lparr>failures := (\<lambda>item. 4)\<rparr>, exampleController)) =
     Some (True, 0, [])"
    using C8_retry_policy [OF exampleQueue_Get, of "\<lambda>item. 4" "exampleCluster [] []"
        exampleController None
        "snd (syncService (exampleCluster [] []) exampleKey exampleController)"]
      exampleQueue_limiter [of "\<lambda>item. 4"] ok
    by (auto simp: prod_eq_iff)
  have b: "map_option (\<lambda>(again, q', c'). (again, failures q' exampleKey, waitingForAdd q'))
     (processNextServiceItem (failingDeleteCluster (RetryError ''provider busy'' (7 * Second)))
        (exampleQueue\<lparr>failures := (\<lambda>item. 4)\<rparr>, cachedController exampleService)) =
     Some (True, 4, [(exampleKey, 7 * Second)])"
    using C8_retry_policy [OF exampleQueue_Get, of "\<lambda>item. 4"
        "failingDeleteCluster (RetryError ''provider busy'' (7 * Second))"
        "cachedController exampleService" "Some (RetryError ''provider busy'' (7 * Second))"
        "snd (syncService (failingDeleteCluster (RetryError ''provider busy'' (7 * Second)))
                exampleKey (cachedController exampleService))"]
      exampleQueue_limiter [of "\<lambda>item. 4"] busy
    by (auto simp: prod_eq_iff Second_def)
  have c: "map_option (\<lambda>(again, q', c'). (again, failures q' exampleKey, waitingForAdd q'))
     (processNextServiceItem (failingDeleteCluster (ErrorString ''request timed out''))
        (exampleQueue\<lparr>failures := (\<lambda>item. 3)\<rparr>, cachedController exampleService)) =
     Some (True, 4, [(exampleKey, 40 * Second)])"
    using C8_retry_policy [OF exampleQueue_Get, of "\<lambda>item. 3"
        "failingDeleteCluster (ErrorString ''request timed out'')"
        "cachedController exampleService" "Some (ErrorString ''request timed out'')"
        "snd (syncService (failingDeleteCluster (ErrorString ''request timed out''))
                exampleKey (cachedController exampleService))"]
      exampleQueue_limiter [of "\<lambda>item. 3"] timeout
    by (auto simp: prod_eq_iff minRetryDelay_def maxRetryDelay_def Second_def)
  have d: "map_option (\<lambda>(again, q', c'). (again, failures q' exampleKey, waitingForAdd q'))
     (processNextServiceItem (failingDeleteCluster (ErrorString ''request timed out''))
        (exampleQueue\<lparr>failures := (\<lambda>item. 9)\<rparr>, cachedController exampleService)) =
     Some (True, 10, [(exampleKey, 300 * Second)])"
    using C8_retry_policy [OF exampleQueue_Get, of "\<lambda>item. 9"
        "failingDeleteCluster (ErrorString ''request timed out'')"
        "cachedController exampleService" "Some (ErrorString ''request timed out'')"
        "snd (syncService (failingDeleteCluster (ErrorString ''request timed out''))
                exampleKey (cachedController exampleService))"]
      exampleQueue_limiter [of "\<lambda>item. 9"] timeout
    by (auto simp: prod_eq_iff minRetryDelay_def maxRetryDelay_def Second_def)
  show ?thesis
    using a b c d by simp
qed

subsection \<open>Writes of the load-balancer status\<close>





subsection \<open>Identifier annotations of a service that is being deleted\<close>

text \<open>
  C10. For a service with a deletion timestamp, \<^verbatim>\<open>removeAnnotationLbId\<close> returns success
  and leaves the controller state as it is, making no call, for the current and for the old
  identifier annotation (and for any other). Hence in a pass over such a service every
  patch of the service leaves its annotations as they are.
\<close>

theorem C10_annotations_kept_while_deleting:
  assumes "DeletionTimestamp s \<noteq> None"
  shows "removeAnnotationLbId cl s ServiceAnnotationLoadBalancerID c = (None, c) \<and>
         removeAnnotationLbId cl s ServiceAnnotationLoadBalancerOldID c = (None, c) \<and>
         list_all keepsAnnotations
           (newCalls c (snd (processServiceCreateOrUpdate cl s key epss c)))"
proof -
  have a: "removeAnnotationLbId cl s annotation c = (None, c)" for annotation
    using assms by (simp add: removeAnnotationLbId_def)
  obtain r c1 where run: "processServiceCreateOrUpdate cl s key epss c = (r, c1)"
    by (cases "processServiceCreateOrUpdate cl s key epss c") auto
  have "adds keepsAnnotations c c1"
    by (rule processServiceCreateOrUpdate_adds[OF run]) (use assms in simp_all)
  then have "list_all keepsAnnotations
           (newCalls c (snd (processServiceCreateOrUpdate cl s key epss c)))"
    using run by (simp add: adds_newCalls)
  then show ?thesis
    using a by simp
qed

theorem C10_annotations_kept_while_deleting_witness:
  "DeletionTimestamp finalizedDeletingService = Some 17 \<and>
   removeAnnotationLbId (exampleCluster [] []) finalizedDeletingService
       ServiceAnnotationLoadBalancerID exampleController = (None, exampleController) \<and>
   removeAnnotationLbId (exampleCluster [] []) finalizedDeletingService
       ServiceAnnotationLoadBalancerOldID exampleController = (None, exampleController) \<and>
   newCalls exampleController
     (snd (processServiceCreateOrUpdate (exampleCluster [] []) finalizedDeletingService
             exampleKey [] exampleController)) =
     [EnsureLoadBalancerDeleted ''c1'' finalizedDeletingService ''lb-0'',
      EnsureLoadBalancerDeleted ''c1'' finalizedDeletingService ''lb-1'',
      PatchService finalizedDeletingService (finalizedDeletingService\<lparr>Finalizers := []\<rparr>),
      Event EventTypeNormal ''DeletedLoadBalancer''] \<and>
   list_all keepsAnnotations
     (newCalls exampleController
        (snd (processServiceCreateOrUpdate (exampleCluster [] []) finalizedDeletingService
                exampleKey [] exampleController)))"
proof -
  have d: "DeletionTimestamp finalizedDeletingService = Some 17"
    by (simp add: finalizedDeletingService_def exampleService_def)
  have t: "newCalls exampleController
     (snd (processServiceCreateOrUpdate (exampleCluster [] []) finalizedDeletingService
             exampleKey [] exampleController)) =
     [EnsureLoadBalancerDeleted ''c1'' finalizedDeletingService ''lb-0'',
      EnsureLoadBalancerDeleted ''c1'' finalizedDeletingService ''lb-1'',
      PatchService finalizedDeletingService (finalizedDeletingService\<lparr>Finalizers := []\<rparr>),
      Event EventTypeNormal ''DeletedLoadBalancer'']"
    by (simp add: newCalls_def example_defs constant_defs call_defs lifecycle_defs Let_def)
  show ?thesis
    using C10_annotations_kept_while_deleting
      [of finalizedDeletingService "exampleCluster [] []" exampleController exampleKey "[]"]
      d t
    by simp
qed

end
